theory Spec2Isabelle
  imports Complex_Main "HOL-Library.Word"
begin

section \<open>JavaScript values used by the worker\<close>

text \<open>
  JavaScript numbers are modelled as \<^typ>\<open>real\<close>: every literal of the source
  (\<open>0.85\<close>, \<open>0.6\<close>, \<open>1000\<close>, ...) is read as the decimal it denotes and arithmetic is exact.
  Quantities that are integers in the source (byte lengths, pixel sizes, HTTP status codes)
  are \<^typ>\<open>nat\<close>; \<open>Date.now()\<close> is an \<^typ>\<open>int\<close> number of milliseconds, passed in
  explicitly wherever the source reads the clock.  A \<open>Buffer\<close> is a list of bytes.
  A thrown value is either an \<open>Error\<close> carrying its message or something else; the
  handlers of the source distinguish the two with \<open>error instanceof Error\<close>.
\<close>

type_synonym byte = "8 word"

datatype thrown = Error string | NonError

definition errorMessage :: "thrown \<Rightarrow> string \<Rightarrow> string" where
  "errorMessage e fallback = (case e of Error m \<Rightarrow> m | NonError \<Rightarrow> fallback)"

definition digitChar :: "nat \<Rightarrow> char" where
  "digitChar d = ''0123456789'' ! (d mod 10)"

fun showNat :: "nat \<Rightarrow> string" where
  "showNat n = (if n < 10 then [digitChar n] else showNat (n div 10) @ [digitChar (n mod 10)])"

declare showNat.simps [simp del]

definition showInt :: "int \<Rightarrow> string" where
  "showInt i = (if i < 0 then ''-'' @ showNat (nat (- i)) else showNat (nat i))"

text \<open>
  \<open>Number.prototype.toFixed(2)\<close> for a number of magnitude below \<open>10^21\<close>: the integer
  \<open>n\<close> with \<open>n / 100\<close> closest to the magnitude, the larger one on a tie, printed with
  two decimals, after a minus sign for a negative number.
\<close>

definition toFixed2 :: "real \<Rightarrow> string" where
  "toFixed2 x =
     (let n = nat \<lfloor>\<bar>x\<bar> * 100 + 1 / 2\<rfloor>
      in (if x < 0 then ''-'' else []) @ showNat (n div 100) @ ''.'' @
         [digitChar (n div 10), digitChar n])"

fun startsWith :: "string \<Rightarrow> string \<Rightarrow> bool" where
  "startsWith s [] = True"
| "startsWith [] (p # ps) = False"
| "startsWith (c # cs) (p # ps) = (c = p \<and> startsWith cs ps)"

fun includesStr :: "string \<Rightarrow> string \<Rightarrow> bool" where
  "includesStr [] sub = (sub = [])"
| "includesStr (c # cs) sub = (startsWith (c # cs) sub \<or> includesStr cs sub)"

text \<open>\<open>toUpperCase\<close> and \<open>trim\<close> on the ASCII range.\<close>

definition toUpperChar :: "char \<Rightarrow> char" where
  "toUpperChar c =
     (case map_of (zip ''abcdefghijklmnopqrstuvwxyz'' ''ABCDEFGHIJKLMNOPQRSTUVWXYZ'') c of
        None \<Rightarrow> c
      | Some u \<Rightarrow> u)"

definition toUpperCase :: "string \<Rightarrow> string" where
  "toUpperCase s = map toUpperChar s"

definition isWhiteSpace :: "char \<Rightarrow> bool" where
  "isWhiteSpace c = (c \<in> set [CHR 0x09, CHR 0x0A, CHR 0x0B, CHR 0x0C, CHR 0x0D, CHR 0x20])"

definition trim :: "string \<Rightarrow> string" where
  "trim s = rev (dropWhile isWhiteSpace (rev (dropWhile isWhiteSpace s)))"

section \<open>Per-source token bucket (src/utils/rate-limit.ts)\<close>

text \<open>
  The module-level \<open>Map\<close> of buckets is threaded through every function that touches it.
\<close>

record TokenBucket =
  tokens :: real
  lastRefill :: int
  maxTokens :: real
  refillRate :: real

type_synonym buckets = "string \<rightharpoonup> TokenBucket"

definition CACHE_DURATION_MS :: int where
  "CACHE_DURATION_MS = 60000"

definition initBucket :: "string \<Rightarrow> real \<Rightarrow> int \<Rightarrow> buckets \<Rightarrow> buckets" where
  "initBucket sourceId maxRps now bs =
     bs(sourceId \<mapsto> \<lparr>tokens = maxRps, lastRefill = now, maxTokens = maxRps, refillRate = maxRps\<rparr>)"

definition tryAcquire :: "string \<Rightarrow> int \<Rightarrow> buckets \<Rightarrow> bool \<times> buckets" where
  "tryAcquire sourceId now bs =
     (case bs sourceId of
        None \<Rightarrow> (True, bs)
      | Some bucket \<Rightarrow>
          (let elapsed = real_of_int (now - lastRefill bucket) / 1000;
               refill = \<lfloor>elapsed * refillRate bucket\<rfloor>;
               bucket1 = (if refill > 0
                          then bucket\<lparr>tokens := min (maxTokens bucket) (tokens bucket + of_int refill),
                                      lastRefill := now\<rparr>
                          else bucket)
           in if tokens bucket1 > 0
              then (True, bs(sourceId \<mapsto> bucket1\<lparr>tokens := tokens bucket1 - 1\<rparr>))
              else (False, bs(sourceId \<mapsto> bucket1))))"

text \<open>
  \<open>getWaitTime\<close> returns a JavaScript number; \<open>1000 / 0\<close> is \<open>Infinity\<close> there, so the
  result type has a point for it.
\<close>

datatype jsint = Fin int | PosInfinity

definition getWaitTime :: "string \<Rightarrow> buckets \<Rightarrow> jsint" where
  "getWaitTime sourceId bs =
     (case bs sourceId of
        None \<Rightarrow> Fin 0
      | Some bucket \<Rightarrow>
          if tokens bucket > 0 then Fin 0
          else if refillRate bucket = 0 then PosInfinity
          else Fin \<lceil>1000 / refillRate bucket\<rceil>)"

text \<open>The periodic sweeper: one run of the \<open>setInterval\<close> callback at time \<open>now\<close>.\<close>

definition sweepBuckets :: "int \<Rightarrow> buckets \<Rightarrow> buckets" where
  "sweepBuckets now bs =
     (\<lambda>k. case bs k of
             None \<Rightarrow> None
           | Some bucket \<Rightarrow> if now - lastRefill bucket > CACHE_DURATION_MS then None else Some bucket)"

section \<open>HTTP fetcher (src/pipeline/fetch.ts, src/types.ts)\<close>

record FetchResult =
  fr_ok :: bool
  fr_bytes :: "byte list option"
  fr_contentType :: "string option"
  fr_error :: "string option"
  fr_httpStatus :: "nat option"

text \<open>
  What the network does for one \<open>fetch(url)\<close>: the call rejects (network failure or the
  30 second abort), or a response arrives with its status, its \<open>content-type\<close> header if
  any, and a body whose download may itself fail.
\<close>

datatype http_outcome =
    FetchThrows thrown
  | HttpResponse nat "string option" "thrown + byte list"

definition KNOWN_ERROR_PAYLOADS :: "string \<rightharpoonup> nat list" where
  "KNOWN_ERROR_PAYLOADS = [''pokemontcg_api'' \<mapsto> [186316]]"

text \<open>
  \<open>KNOWN_ERROR_PAYLOADS\<close> is a plain object, so indexing it with the name of a property
  of \<open>Object.prototype\<close> yields that inherited property, which is truthy and has no
  \<open>includes\<close> method: the call throws a \<open>TypeError\<close>.
\<close>

definition objectPrototypeKeys :: "string list" where
  "objectPrototypeKeys =
     [''constructor'', ''__defineGetter__'', ''__defineSetter__'', ''hasOwnProperty'',
      ''__lookupGetter__'', ''__lookupSetter__'', ''isPrototypeOf'', ''propertyIsEnumerable'',
      ''toString'', ''valueOf'', ''__proto__'', ''toLocaleString'']"

definition isKnownErrorPayload :: "byte list \<Rightarrow> string \<Rightarrow> thrown + bool" where
  "isKnownErrorPayload bytes sourceName =
     (case KNOWN_ERROR_PAYLOADS sourceName of
        Some errorSizes \<Rightarrow> Inr (length bytes \<in> set errorSizes)
      | None \<Rightarrow>
          if sourceName \<in> set objectPrototypeKeys
          then Inl (Error ''errorSizes.includes is not a function'')
          else Inr False)"

definition fetchFailure :: "string \<Rightarrow> nat option \<Rightarrow> FetchResult" where
  "fetchFailure msg st =
     \<lparr>fr_ok = False, fr_bytes = None, fr_contentType = None, fr_error = Some msg,
      fr_httpStatus = st\<rparr>"

definition fetchCatch :: "thrown \<Rightarrow> FetchResult" where
  "fetchCatch e = fetchFailure (errorMessage e ''Unknown error'') None"

definition fetchImage :: "(string \<Rightarrow> http_outcome) \<Rightarrow> string \<Rightarrow> string option \<Rightarrow> FetchResult" where
  "fetchImage net url sourceName =
     (case net url of
        FetchThrows e \<Rightarrow> fetchCatch e
      | HttpResponse status header body \<Rightarrow>
          if \<not> (200 \<le> status \<and> status \<le> 299)
          then fetchFailure (''HTTP '' @ showNat status) (Some status)
          else
            (let contentType = (case header of None \<Rightarrow> [] | Some v \<Rightarrow> v)
             in if \<not> startsWith contentType ''image/''
                then fetchFailure (''Invalid content type: '' @ contentType) (Some status)
                else
                  (case body of
                     Inl e \<Rightarrow> fetchCatch e
                   | Inr bytes \<Rightarrow>
                       (case (case sourceName of
                                None \<Rightarrow> Inr False
                              | Some name \<Rightarrow>
                                  if name = [] then Inr False else isKnownErrorPayload bytes name) of
                          Inl e \<Rightarrow> fetchCatch e
                        | Inr True \<Rightarrow> fetchFailure ''known_error_payload'' (Some status)
                        | Inr False \<Rightarrow>
                            \<lparr>fr_ok = True, fr_bytes = Some bytes, fr_contentType = Some contentType,
                             fr_error = None, fr_httpStatus = Some status\<rparr>))))"

section \<open>Configuration (src/config.ts)\<close>

definition maxImagePixels :: nat where
  "maxImagePixels = 20000000"

definition minConfidenceForAssignment :: real where
  "minConfidenceForAssignment = 0.85"

definition visionCheckLowerBound :: real where
  "visionCheckLowerBound = 0.6"

definition visionCheckUpperBound :: real where
  "visionCheckUpperBound = 0.9"

datatype variant = Thumb | Grid | Detail

record derivativeSetting =
  ds_width :: nat
  ds_quality :: nat

fun derivativeSizes :: "variant \<Rightarrow> derivativeSetting" where
  "derivativeSizes Thumb = \<lparr>ds_width = 160, ds_quality = 75\<rparr>"
| "derivativeSizes Grid = \<lparr>ds_width = 360, ds_quality = 80\<rparr>"
| "derivativeSizes Detail = \<lparr>ds_width = 960, ds_quality = 80\<rparr>"

section \<open>Image decoder (src/pipeline/decode.ts)\<close>

record ImageMetadata =
  md_width :: nat
  md_height :: nat
  md_format :: string
  md_size :: nat

text \<open>What \<open>sharp(buffer).metadata()\<close> reports; each field may be missing.\<close>

record sharpMetadata =
  sm_width :: "nat option"
  sm_height :: "nat option"
  sm_format :: "string option"

text \<open>\<open>!x\<close> on an optional number: true when the number is missing or zero.\<close>

definition falsyNat :: "nat option \<Rightarrow> bool" where
  "falsyNat x = (case x of None \<Rightarrow> True | Some n \<Rightarrow> n = 0)"

definition decodeImage :: "(byte list \<Rightarrow> thrown + sharpMetadata) \<Rightarrow> byte list \<Rightarrow> string + ImageMetadata" where
  "decodeImage readMetadata buffer =
     (case readMetadata buffer of
        Inl e \<Rightarrow> Inl (errorMessage e ''Unknown decode error'')
      | Inr metadata \<Rightarrow>
          if falsyNat (sm_width metadata) \<or> falsyNat (sm_height metadata)
          then Inl ''Could not determine image dimensions''
          else
            (let w = the (sm_width metadata); h = the (sm_height metadata); pixels = w * h
             in if pixels > maxImagePixels
                then Inl (''Image too large: '' @ showNat pixels @ '' pixels (max: '' @
                          showNat maxImagePixels @ '')'')
                else Inr \<lparr>md_width = w, md_height = h,
                          md_format = (case sm_format metadata of
                                         None \<Rightarrow> ''unknown''
                                       | Some f \<Rightarrow> if f = [] then ''unknown'' else f),
                          md_size = length buffer\<rparr>))"

section \<open>Heuristic side detector (src/pipeline/detect-side.ts)\<close>

datatype cardSide = Front | Back | Unknown

datatype detectMethod = Heuristic | Vision | Manual

record SideDetectionResult =
  side :: cardSide
  confidence :: real
  method' :: detectMethod

definition EXPECTED_CARD_ASPECT_RATIO :: real where
  "EXPECTED_CARD_ASPECT_RATIO = 0.716"

definition ASPECT_RATIO_TOLERANCE :: real where
  "ASPECT_RATIO_TOLERANCE = 0.08"

text \<open>
  A pixel read from the raw buffer.  Reading a \<open>Buffer\<close> past its end yields
  \<open>undefined\<close> (\<open>None\<close> here), which happens when the raw image has fewer than three
  channels; arithmetic on it gives \<open>NaN\<close> (again \<open>None\<close>) and every comparison with it
  is false.
\<close>

record pixel =
  px_r :: "nat option"
  px_g :: "nat option"
  px_b :: "nat option"

definition bufferAt :: "byte list \<Rightarrow> nat \<Rightarrow> nat option" where
  "bufferAt buffer idx = (if idx < length buffer then Some (unat (buffer ! idx)) else None)"

definition extractBorderPixels :: "byte list \<Rightarrow> nat \<Rightarrow> nat \<Rightarrow> pixel list" where
  "extractBorderPixels buffer w h =
     (let borderSize = nat \<lfloor>real w * 0.1\<rfloor>
      in concat (map (\<lambda>y.
           map (\<lambda>x. let idx = (y * w + x) * 3
                    in \<lparr>px_r = bufferAt buffer idx, px_g = bufferAt buffer (idx + 1),
                        px_b = bufferAt buffer (idx + 2)\<rparr>)
               (filter (\<lambda>x. x < borderSize \<or> x \<ge> w - borderSize \<or>
                              y < borderSize \<or> y \<ge> h - borderSize) [0..<w]))
           [0..<h]))"

text \<open>The remainder operator of JavaScript on numbers: the sign follows the dividend.\<close>

definition jsRem :: "real \<Rightarrow> real \<Rightarrow> real" where
  "jsRem x y = x - y * of_int (if 0 \<le> x / y then \<lfloor>x / y\<rfloor> else \<lceil>x / y\<rceil>)"

definition rgbToHue :: "nat option \<Rightarrow> nat option \<Rightarrow> nat option \<Rightarrow> real option" where
  "rgbToHue r g b =
     (case (r, g, b) of
        (Some r', Some g', Some b') \<Rightarrow>
          (let mx = max r' (max g' b'); mn = min r' (min g' b');
               delta = real mx - real mn
           in if delta = 0 then Some 0
              else Some ((if mx = r' then jsRem ((real g' - real b') / delta) 6
                          else if mx = g' then (real b' - real r') / delta + 2
                          else (real r' - real g') / delta + 4) * 60))
      | _ \<Rightarrow> None)"

record colourCounts =
  blueCount :: nat
  yellowCount :: nat
  totalHue :: "real option"
  hueHistogram :: "nat list"

definition isBluePixel :: "pixel \<Rightarrow> bool" where
  "isBluePixel p =
     (case (px_r p, px_g p, px_b p) of
        (Some r, Some g, Some b) \<Rightarrow> b > 120 \<and> real b > real r * 1.5 \<and> real b > real g * 1.2
      | _ \<Rightarrow> False)"

definition isYellowPixel :: "pixel \<Rightarrow> bool" where
  "isYellowPixel p =
     (case (px_r p, px_g p, px_b p) of
        (Some r, Some g, Some b) \<Rightarrow> r > 180 \<and> g > 150 \<and> b < 100
      | _ \<Rightarrow> False)"

text \<open>
  One iteration of the loop of \<open>analyzePixelColors\<close>.  \<open>hueHistogram[hueBucket]++\<close>
  with a negative or \<open>NaN\<close> bucket sets a property that is not an array element and
  leaves the twelve counters alone; a hue is at most 300, so the bucket never exceeds 10.
\<close>

definition countPixel :: "colourCounts \<Rightarrow> pixel \<Rightarrow> colourCounts" where
  "countPixel acc p =
     (let hue = rgbToHue (px_r p) (px_g p) (px_b p)
      in \<lparr>blueCount = (if isBluePixel p then blueCount acc + 1 else blueCount acc),
          yellowCount = (if isYellowPixel p then yellowCount acc + 1 else yellowCount acc),
          totalHue = (case (totalHue acc, hue) of (Some t, Some h) \<Rightarrow> Some (t + h) | _ \<Rightarrow> None),
          hueHistogram =
            (case hue of
               None \<Rightarrow> hueHistogram acc
             | Some h \<Rightarrow>
                 (let hueBucket = \<lfloor>h / 30\<rfloor>
                  in if 0 \<le> hueBucket \<and> hueBucket < 12
                     then (hueHistogram acc)[nat hueBucket := hueHistogram acc ! nat hueBucket + 1]
                     else hueHistogram acc))\<rparr>)"

record BorderAnalysis =
  isBlueBack :: bool
  hasYellowBorder :: bool
  hasVariedColors :: bool
  dominantHue :: "real option"

text \<open>
  A ratio \<open>count / pixels.length\<close> compared with a threshold; with no pixel at all the
  ratio is \<open>NaN\<close> and the comparison is false.
\<close>

definition ratioAbove :: "nat \<Rightarrow> nat \<Rightarrow> real \<Rightarrow> bool" where
  "ratioAbove n len bound = (if len = 0 then False else real n / real len > bound)"

definition analyzePixelColors :: "pixel list \<Rightarrow> BorderAnalysis" where
  "analyzePixelColors pixels =
     (let acc = foldl countPixel
                  \<lparr>blueCount = 0, yellowCount = 0, totalHue = Some 0,
                   hueHistogram = replicate 12 0\<rparr> pixels;
          maxBucket = foldr max (hueHistogram acc) 0
      in \<lparr>isBlueBack = ratioAbove (blueCount acc) (length pixels) 0.5,
          hasYellowBorder = ratioAbove (yellowCount acc) (length pixels) 0.3,
          hasVariedColors = (real maxBucket < real (length pixels) * 0.4),
          dominantHue = (if pixels = [] then None
                         else map_option (\<lambda>t. t / real (length pixels)) (totalHue acc))\<rparr>)"

text \<open>
  \<open>sharp(buffer).resize(64, 64, {fit: 'fill'}).raw().toBuffer()\<close> is the imaging library;
  its result (a raw buffer, or a failure) is a parameter.
\<close>

definition analyzeBorderColors :: "(byte list \<Rightarrow> thrown + byte list) \<Rightarrow> byte list \<Rightarrow> thrown + BorderAnalysis" where
  "analyzeBorderColors resizeRaw buffer =
     (case resizeRaw buffer of
        Inl e \<Rightarrow> Inl e
      | Inr small \<Rightarrow> Inr (analyzePixelColors (extractBorderPixels small 64 64)))"

text \<open>
  \<open>metadata.width / metadata.height\<close> with a zero height is \<open>Infinity\<close> or \<open>NaN\<close>, for
  which the tolerance test is false.
\<close>

definition aspectRatioMatches :: "ImageMetadata \<Rightarrow> bool" where
  "aspectRatioMatches metadata =
     (if md_height metadata = 0 then False
      else \<bar>real (md_width metadata) / real (md_height metadata) - EXPECTED_CARD_ASPECT_RATIO\<bar>
             \<le> ASPECT_RATIO_TOLERANCE)"

definition detectSide :: "(byte list \<Rightarrow> thrown + byte list) \<Rightarrow> byte list \<Rightarrow> ImageMetadata \<Rightarrow> SideDetectionResult" where
  "detectSide resizeRaw buffer metadata =
     (let score0 = (if aspectRatioMatches metadata then 0 + 0.2 else (0 :: real))
      in case analyzeBorderColors resizeRaw buffer of
           Inl e \<Rightarrow> \<lparr>side = Unknown, confidence = 0.5, method' = Heuristic\<rparr>
         | Inr borderAnalysis \<Rightarrow>
             (let score = (if isBlueBack borderAnalysis then score0 - 0.6
                           else if hasYellowBorder borderAnalysis then score0 + 0.3
                           else if hasVariedColors borderAnalysis then score0 + 0.2
                           else score0)
              in if score \<ge> 0.3
                 then \<lparr>side = Front, confidence = min 0.95 (0.5 + score), method' = Heuristic\<rparr>
                 else if score \<le> - 0.3
                 then \<lparr>side = Back, confidence = min 0.95 (0.5 + \<bar>score\<bar>), method' = Heuristic\<rparr>
                 else \<lparr>side = Unknown, confidence = 0.5, method' = Heuristic\<rparr>))"

section \<open>Vision checker (src/pipeline/vision.ts)\<close>

text \<open>
  The outcome of the request to the vision model: the request throws, the response is
  not 2xx, or the JSON body is read; then \<open>data.choices[0]?.message?.content\<close> is a
  string, or missing, or evaluating the expression throws (no \<open>choices\<close> array, a body
  that is not JSON, a content that is not a string).
\<close>

datatype vision_outcome =
    VisionThrows thrown
  | VisionNotOk nat
  | VisionOk "string option"

definition checkWithVision :: "bool \<Rightarrow> vision_outcome \<Rightarrow> SideDetectionResult" where
  "checkWithVision apiKeyConfigured outcome =
     (if \<not> apiKeyConfigured then \<lparr>side = Unknown, confidence = 0.5, method' = Vision\<rparr>
      else
        (case outcome of
           VisionThrows e \<Rightarrow> \<lparr>side = Unknown, confidence = 0.5, method' = Vision\<rparr>
         | VisionNotOk st \<Rightarrow> \<lparr>side = Unknown, confidence = 0.5, method' = Vision\<rparr>
         | VisionOk content \<Rightarrow>
             (let answer = (case content of None \<Rightarrow> [] | Some c \<Rightarrow> toUpperCase (trim c))
              in if includesStr answer ''FRONT''
                 then \<lparr>side = Front, confidence = 0.95, method' = Vision\<rparr>
                 else if includesStr answer ''BACK''
                 then \<lparr>side = Back, confidence = 0.95, method' = Vision\<rparr>
                 else if includesStr answer ''WRONG_CARD''
                 then \<lparr>side = Unknown, confidence = 0.3, method' = Vision\<rparr>
                 else \<lparr>side = Unknown, confidence = 0.5, method' = Vision\<rparr>)))"

text \<open>\<open>Math.random()\<close> is the parameter \<open>random\<close>; \<open>sampleRate\<close> defaults to 0.1.\<close>

definition shouldRunVisionCheck :: "int \<Rightarrow> real \<Rightarrow> real \<Rightarrow> real \<Rightarrow> bool" where
  "shouldRunVisionCheck trustTier currentConfidence sampleRate random =
     (if trustTier = 1 then False
      else if trustTier = 3 then True
      else if currentConfidence \<ge> visionCheckLowerBound \<and>
              currentConfidence < visionCheckUpperBound then True
      else random < sampleRate)"

section \<open>Derivative generator (src/storage/derivatives.ts, src/utils/hash.ts)\<close>

record DerivativeResult =
  dr_variant :: variant
  dr_buffer :: "byte list"
  dr_width :: nat
  dr_height :: nat
  dr_bytes :: nat
  dr_storagePath :: string

fun variantName :: "variant \<Rightarrow> string" where
  "variantName Thumb = ''thumb''"
| "variantName Grid = ''grid''"
| "variantName Detail = ''detail''"

definition getStoragePathPrefix :: "string \<Rightarrow> string" where
  "getStoragePathPrefix sha256 = take 2 sha256"

definition getDerivativeStoragePath :: "string \<Rightarrow> string \<Rightarrow> string" where
  "getDerivativeStoragePath sha256 v =
     ''derivatives/'' @ getStoragePathPrefix sha256 @ ''/'' @ sha256 @ ''/'' @ v @ ''.webp''"

text \<open>
  The imaging library again: \<open>sharp(buffer).resize(targetWidth, null, {fit: 'inside',
  withoutEnlargement: true}).webp({quality}).toBuffer()\<close> followed by
  \<open>sharp(processed).metadata()\<close> yields the encoded bytes and the dimensions the library
  reports for them, or throws.  It is a parameter taking the buffer, the target width
  and the quality.
\<close>

record resized =
  rz_buffer :: "byte list"
  rz_width :: "nat option"
  rz_height :: "nat option"

type_synonym resizer = "byte list \<Rightarrow> nat \<Rightarrow> nat \<Rightarrow> thrown + resized"

fun generateLoop :: "resizer \<Rightarrow> byte list \<Rightarrow> string \<Rightarrow> nat \<Rightarrow> variant list \<Rightarrow>
    DerivativeResult list \<Rightarrow> thrown + DerivativeResult list" where
  "generateLoop resizeWebp buffer sha256 originalWidth [] results = Inr results"
| "generateLoop resizeWebp buffer sha256 originalWidth (v # vs) results =
     (let settings = derivativeSizes v;
          targetWidth = min (ds_width settings) originalWidth
      in case resizeWebp buffer targetWidth (ds_quality settings) of
           Inl e \<Rightarrow> Inl e
         | Inr processed \<Rightarrow>
             generateLoop resizeWebp buffer sha256 originalWidth vs
               (results @
                [\<lparr>dr_variant = v,
                  dr_buffer = rz_buffer processed,
                  dr_width = (if falsyNat (rz_width processed) then targetWidth
                              else the (rz_width processed)),
                  dr_height = (if falsyNat (rz_height processed) then 0
                               else the (rz_height processed)),
                  dr_bytes = length (rz_buffer processed),
                  dr_storagePath = getDerivativeStoragePath sha256 (variantName v)\<rparr>]))"

definition generateDerivatives :: "resizer \<Rightarrow> byte list \<Rightarrow> string \<Rightarrow> nat \<Rightarrow> thrown + DerivativeResult list" where
  "generateDerivatives resizeWebp buffer sha256 originalWidth =
     generateLoop resizeWebp buffer sha256 originalWidth [Thumb, Grid, Detail] []"

section \<open>Catalog and pipeline data (src/types.ts, src/db/queries.ts)\<close>

record ImageJob =
  job_cardId :: string
  job_sourceUrl :: string
  job_sourceId :: "string option"
  job_sourceName :: "string option"
  job_trustTier :: "int option"
  job_priority :: "int option"
  job_cardNumber :: "string option"
  job_setCode :: "string option"

datatype status = Completed | Failed | Deduplicated | Rejected | RateLimited

record ProcessResult =
  pr_status :: status
  pr_imageId :: "string option"
  pr_error :: "string option"
  pr_sha256 :: "string option"
  pr_detectedSide :: "cardSide option"
  pr_confidence :: "real option"

record ImageSource =
  src_id :: string
  src_name :: string
  src_baseUrl :: "string option"
  src_trustTier :: int
  src_maxRps :: real
  src_maxConcurrency :: nat
  src_isAllowed :: bool

datatype eventType =
    EvFetchStarted | EvFetchCompleted | EvFetchFailed | EvDeduplicated
  | EvValidationFailed | EvValidationPassed | EvProcessingStarted
  | EvDerivativesGenerated | EvUploadCompleted | EvProcessingCompleted
  | EvRejected | EvAssigned

datatype json = JNum real | JStr string | JBool bool

record IngestEvent =
  ev_cardId :: string
  ev_imageId :: "string option"
  ev_eventType :: eventType
  ev_message :: "string option"
  ev_httpStatus :: "nat option"
  ev_metadata :: "(string \<times> json) list option"

record imageRecord =
  ir_sha256 :: string
  ir_originalMime :: string
  ir_originalWidth :: nat
  ir_originalHeight :: nat
  ir_originalBytes :: nat
  ir_status :: string
  ir_detectedSide :: cardSide
  ir_sideConfidence :: real
  ir_isCollage :: bool
  ir_detectedMethod :: detectMethod

record derivativeRecord =
  drec_imageId :: string
  drec_variant :: variant
  drec_format :: string
  drec_width :: nat
  drec_height :: nat
  drec_bytes :: nat
  drec_storagePath :: string

record assignment =
  as_cardId :: string
  as_imageId :: string
  as_role :: string
  as_sourceId :: "string option"
  as_sourceUrl :: string

text \<open>
  Everything \<open>processImage\<close> does to its collaborators, in program order: the catalog
  calls with their arguments, the events it logs, and the calls of the pipeline stages.
\<close>

datatype effect =
    LogIngestEvent IngestEvent
  | GetImageSource string
  | GetImageSourceByName string
  | FetchImage string string
  | FindImageBySha256 string
  | DecodeImage
  | DetectSide
  | DetectCollage
  | CheckWithVision
  | CreateImageRecord imageRecord
  | GenerateDerivatives
  | UploadDerivative string
  | CreateDerivativeRecord derivativeRecord
  | UpdateImageStatus string string
  | AssignImageToCard assignment

text \<open>
  The answers of the collaborators during one job.  The catalog client reports a failure
  as an error value and does not throw, so an insert or an upsert is answered with an
  optional error message, and the functions of \<open>queries.ts\<close> turn it into an exception
  where the source does; \<open>computeSha256\<close> is the hash of the crypto library;
  \<open>detectCollage\<close> catches every failure and its verdict is taken as given;
  \<open>w_numberToString\<close> is the conversion of a number to a string in a template literal.
\<close>

record world =
  w_startTime :: int
  w_initTime :: int
  w_acquireTime :: int
  w_endTime :: int
  w_getImageSource :: "string \<Rightarrow> ImageSource option"
  w_getImageSourceByName :: "string \<Rightarrow> ImageSource option"
  w_net :: "string \<Rightarrow> http_outcome"
  w_computeSha256 :: "byte list \<Rightarrow> string"
  w_findImageBySha256 :: "string \<Rightarrow> string option"
  w_readMetadata :: "byte list \<Rightarrow> thrown + sharpMetadata"
  w_resizeRaw :: "byte list \<Rightarrow> thrown + byte list"
  w_detectCollage :: "byte list \<Rightarrow> bool"
  w_apiKeyConfigured :: bool
  w_vision :: vision_outcome
  w_random :: real
  w_insertImage :: "string + string"
  w_resizeWebp :: resizer
  w_upload :: "string \<Rightarrow> string option"
  w_insertDerivative :: "variant \<Rightarrow> string option"
  w_upsertAssignment :: "string option"
  w_numberToString :: "real \<Rightarrow> string"

section \<open>Blob uploader (src/storage/upload.ts)\<close>

text \<open>
  The functions of the pipeline return, next to their value, the effects they caused, in
  order.  A function that can throw returns the thrown value, if any, with the effects
  that happened before it.
\<close>

fun uploadDerivatives :: "(string \<Rightarrow> string option) \<Rightarrow> DerivativeResult list \<Rightarrow>
    thrown option \<times> effect list" where
  "uploadDerivatives upload [] = (None, [])"
| "uploadDerivatives upload (d # ds) =
     (case upload (dr_storagePath d) of
        Some msg \<Rightarrow> (Some (Error (''Upload failed: '' @ msg)), [UploadDerivative (dr_storagePath d)])
      | None \<Rightarrow>
          (let (e, tr) = uploadDerivatives upload ds
           in (e, UploadDerivative (dr_storagePath d) # tr)))"

section \<open>Pipeline orchestrator (src/pipeline/index.ts)\<close>

fun sideName :: "cardSide \<Rightarrow> string" where
  "sideName Front = ''front''"
| "sideName Back = ''back''"
| "sideName Unknown = ''unknown''"

fun methodName :: "detectMethod \<Rightarrow> string" where
  "methodName Heuristic = ''heuristic''"
| "methodName Vision = ''vision''"
| "methodName Manual = ''manual''"

definition boolName :: "bool \<Rightarrow> string" where
  "boolName b = (if b then ''true'' else ''false'')"

fun showJsint :: "jsint \<Rightarrow> string" where
  "showJsint (Fin i) = showInt i"
| "showJsint PosInfinity = ''Infinity''"

definition event :: "ImageJob \<Rightarrow> eventType \<Rightarrow> IngestEvent" where
  "event job ty =
     \<lparr>ev_cardId = job_cardId job, ev_imageId = None, ev_eventType = ty, ev_message = None,
      ev_httpStatus = None, ev_metadata = None\<rparr>"

definition result :: "status \<Rightarrow> ProcessResult" where
  "result st =
     \<lparr>pr_status = st, pr_imageId = None, pr_error = None, pr_sha256 = None,
      pr_detectedSide = None, pr_confidence = None\<rparr>"

text \<open>Effects that happened before a stage are put in front of the effects of the stage.\<close>

definition after :: "effect list \<Rightarrow> ProcessResult \<times> effect list \<Rightarrow> ProcessResult \<times> effect list" where
  "after tr x = (fst x, tr @ snd x)"

text \<open>The \<open>catch\<close> block around the body of \<open>processImage\<close>.\<close>

definition pipelineCatch :: "ImageJob \<Rightarrow> thrown \<Rightarrow> ProcessResult \<times> effect list" where
  "pipelineCatch job e =
     (let message = errorMessage e ''Unknown error''
      in ((result Failed)\<lparr>pr_error := Some message\<rparr>,
          [LogIngestEvent ((event job EvFetchFailed)\<lparr>ev_message := Some message\<rparr>)]))"

text \<open>Step 1: the source, by id and then by name; then the trust tier and the source name.\<close>

definition resolveSource :: "world \<Rightarrow> ImageJob \<Rightarrow> ImageSource option \<times> effect list" where
  "resolveSource w job =
     (let (source, tr) =
            (case job_sourceId job of
               None \<Rightarrow> (None, [])
             | Some sid \<Rightarrow> if sid = [] then (None, [])
                           else (w_getImageSource w sid, [GetImageSource sid]))
      in case source of
           Some s \<Rightarrow> (Some s, tr)
         | None \<Rightarrow>
             (case job_sourceName job of
                None \<Rightarrow> (None, tr)
              | Some name \<Rightarrow> if name = [] then (None, tr)
                             else (w_getImageSourceByName w name, tr @ [GetImageSourceByName name])))"

definition resolveTrustTier :: "ImageSource option \<Rightarrow> ImageJob \<Rightarrow> int" where
  "resolveTrustTier source job =
     (case source of
        Some s \<Rightarrow> src_trustTier s
      | None \<Rightarrow> (case job_trustTier job of Some t \<Rightarrow> t | None \<Rightarrow> 3))"

definition resolveSourceName :: "ImageSource option \<Rightarrow> ImageJob \<Rightarrow> string" where
  "resolveSourceName source job =
     (case source of
        Some s \<Rightarrow> src_name s
      | None \<Rightarrow> (case job_sourceName job of Some n \<Rightarrow> n | None \<Rightarrow> ''unknown''))"

text \<open>Step 12: one catalog row per derivative, stopping at the first insert that fails.\<close>

fun recordDerivatives :: "(variant \<Rightarrow> string option) \<Rightarrow> string \<Rightarrow> DerivativeResult list \<Rightarrow>
    thrown option \<times> effect list" where
  "recordDerivatives insertDerivative imageId [] = (None, [])"
| "recordDerivatives insertDerivative imageId (d # ds) =
     (let call = CreateDerivativeRecord
                   \<lparr>drec_imageId = imageId, drec_variant = dr_variant d, drec_format = ''webp'',
                    drec_width = dr_width d, drec_height = dr_height d,
                    drec_bytes = dr_bytes d, drec_storagePath = dr_storagePath d\<rparr>
      in case insertDerivative (dr_variant d) of
           Some msg \<Rightarrow> (Some (Error (''Failed to create derivative record: '' @ msg)), [call])
         | None \<Rightarrow>
             (let (e, tr) = recordDerivatives insertDerivative imageId ds
              in (e, call # tr)))"

text \<open>Steps 6 to 8: heuristic side detection, collage detection, vision fallback.\<close>

definition classify :: "world \<Rightarrow> int \<Rightarrow> byte list \<Rightarrow> ImageMetadata \<Rightarrow>
    SideDetectionResult \<times> bool \<times> effect list" where
  "classify w trustTier bytes metadata =
     (let heuristic = detectSide (w_resizeRaw w) bytes metadata;
          isCollage = w_detectCollage w bytes
      in if shouldRunVisionCheck trustTier (confidence heuristic) 0.1 (w_random w)
         then
           (let visionResult = checkWithVision (w_apiKeyConfigured w) (w_vision w)
            in (if confidence visionResult > confidence heuristic then visionResult else heuristic,
                isCollage, [DetectSide, DetectCollage, CheckWithVision]))
         else (heuristic, isCollage, [DetectSide, DetectCollage]))"

text \<open>Step 14: the assignment gate and the two results that follow it.\<close>

definition canAssign :: "SideDetectionResult \<Rightarrow> bool \<Rightarrow> bool" where
  "canAssign sideResult isCollage =
     (side sideResult = Front \<and> confidence sideResult \<ge> minConfidenceForAssignment \<and>
      \<not> isCollage)"

definition assignOrReject :: "world \<Rightarrow> ImageJob \<Rightarrow> ImageSource option \<Rightarrow> string \<Rightarrow> string \<Rightarrow>
    SideDetectionResult \<Rightarrow> bool \<Rightarrow> ProcessResult \<times> effect list" where
  "assignOrReject w job source imageId sha256 sideResult isCollage =
     (if canAssign sideResult isCollage
      then
        (let call = AssignImageToCard
                      \<lparr>as_cardId = job_cardId job, as_imageId = imageId,
                       as_role = ''primary_front'', as_sourceId = map_option src_id source,
                       as_sourceUrl = job_sourceUrl job\<rparr>
         in case w_upsertAssignment w of
              Some msg \<Rightarrow>
                after [call] (pipelineCatch job (Error (''Failed to assign image to card: '' @ msg)))
            | None \<Rightarrow>
                ((result Completed)
                   \<lparr>pr_imageId := Some imageId, pr_sha256 := Some sha256,
                    pr_detectedSide := Some (side sideResult),
                    pr_confidence := Some (confidence sideResult)\<rparr>,
                 [call,
                  LogIngestEvent ((event job EvAssigned)
                    \<lparr>ev_imageId := Some imageId, ev_message := Some ''primary_front''\<rparr>)]))
      else
        ((result Rejected)
           \<lparr>pr_imageId := Some imageId, pr_sha256 := Some sha256,
            pr_detectedSide := Some (side sideResult),
            pr_confidence := Some (confidence sideResult),
            pr_error := Some (''Not assigned: side='' @ sideName (side sideResult) @
                              '', confidence='' @ toFixed2 (confidence sideResult) @
                              '', isCollage='' @ boolName isCollage)\<rparr>,
         [LogIngestEvent ((event job EvRejected)
            \<lparr>ev_imageId := Some imageId,
             ev_message := Some (''side='' @ sideName (side sideResult) @
                                 '', confidence='' @ w_numberToString w (confidence sideResult) @
                                 '', isCollage='' @ boolName isCollage)\<rparr>)]))"

text \<open>Steps 9 to 13: the image row, the derivatives, their upload and their rows.\<close>

definition newImageRecord :: "byte list \<Rightarrow> string \<Rightarrow> string \<Rightarrow> ImageMetadata \<Rightarrow>
    SideDetectionResult \<Rightarrow> bool \<Rightarrow> imageRecord" where
  "newImageRecord bytes contentType sha256 metadata sideResult isCollage =
     \<lparr>ir_sha256 = sha256,
      ir_originalMime = (if contentType = [] then ''image/unknown'' else contentType),
      ir_originalWidth = md_width metadata,
      ir_originalHeight = md_height metadata,
      ir_originalBytes = length bytes,
      ir_status = ''processing'',
      ir_detectedSide = side sideResult,
      ir_sideConfidence = confidence sideResult,
      ir_isCollage = isCollage,
      ir_detectedMethod = method' sideResult\<rparr>"

definition persist :: "world \<Rightarrow> ImageJob \<Rightarrow> ImageSource option \<Rightarrow> byte list \<Rightarrow> string \<Rightarrow> string \<Rightarrow>
    ImageMetadata \<Rightarrow> SideDetectionResult \<Rightarrow> bool \<Rightarrow> ProcessResult \<times> effect list" where
  "persist w job source bytes contentType sha256 metadata sideResult isCollage =
     after [LogIngestEvent (event job EvProcessingStarted),
            CreateImageRecord (newImageRecord bytes contentType sha256 metadata sideResult isCollage)]
       (case w_insertImage w of
          Inl msg \<Rightarrow> pipelineCatch job (Error (''Failed to create image record: '' @ msg))
        | Inr imageId \<Rightarrow>
            after [GenerateDerivatives]
              (case generateDerivatives (w_resizeWebp w) bytes sha256 (md_width metadata) of
                 Inl e \<Rightarrow> pipelineCatch job e
               | Inr derivatives \<Rightarrow>
                   after [LogIngestEvent ((event job EvDerivativesGenerated)
                            \<lparr>ev_imageId := Some imageId,
                             ev_metadata := Some [(''count'', JNum (real (length derivatives)))]\<rparr>)]
                     (case uploadDerivatives (w_upload w) derivatives of
                        (Some e, uploads) \<Rightarrow> after uploads (pipelineCatch job e)
                      | (None, uploads) \<Rightarrow>
                          after (uploads @
                                 [LogIngestEvent ((event job EvUploadCompleted)
                                    \<lparr>ev_imageId := Some imageId\<rparr>)])
                            (case recordDerivatives (w_insertDerivative w) imageId derivatives of
                               (Some e, inserts) \<Rightarrow> after inserts (pipelineCatch job e)
                             | (None, inserts) \<Rightarrow>
                                 after (inserts @
                                        [UpdateImageStatus imageId ''completed'',
                                         LogIngestEvent ((event job EvProcessingCompleted)
                                           \<lparr>ev_imageId := Some imageId,
                                            ev_metadata := Some [(''elapsed_ms'',
                                              JNum (real_of_int (w_endTime w - w_startTime w)))]\<rparr>)])
                                   (assignOrReject w job source imageId sha256 sideResult
                                      isCollage)))))"

text \<open>Steps 5 to 8 for bytes the catalog has not seen: decoding, then classification.\<close>

definition processNew :: "world \<Rightarrow> ImageJob \<Rightarrow> ImageSource option \<Rightarrow> int \<Rightarrow> byte list \<Rightarrow> string \<Rightarrow>
    string \<Rightarrow> ProcessResult \<times> effect list" where
  "processNew w job source trustTier bytes contentType sha256 =
     after [DecodeImage]
       (case decodeImage (w_readMetadata w) bytes of
          Inl msg \<Rightarrow>
            ((result Failed)\<lparr>pr_error := Some msg\<rparr>,
             [LogIngestEvent ((event job EvValidationFailed)\<lparr>ev_message := Some msg\<rparr>)])
        | Inr metadata \<Rightarrow>
            (let (sideResult, isCollage, calls) = classify w trustTier bytes metadata
             in after (calls @
                       [LogIngestEvent ((event job EvValidationPassed)
                          \<lparr>ev_metadata := Some
                             [(''width'', JNum (real (md_width metadata))),
                              (''height'', JNum (real (md_height metadata))),
                              (''side'', JStr (sideName (side sideResult))),
                              (''confidence'', JNum (confidence sideResult)),
                              (''isCollage'', JBool isCollage),
                              (''method'', JStr (methodName (method' sideResult)))]\<rparr>)])
                  (persist w job source bytes contentType sha256 metadata sideResult isCollage)))"

text \<open>Steps 3 and 4: the fetch, the hash and the deduplication probe.\<close>

definition deduplicate :: "world \<Rightarrow> ImageJob \<Rightarrow> ImageSource option \<Rightarrow> string \<Rightarrow> string \<Rightarrow>
    ProcessResult \<times> effect list" where
  "deduplicate w job source existingId sha256 =
     after [LogIngestEvent ((event job EvDeduplicated)\<lparr>ev_imageId := Some existingId\<rparr>),
            AssignImageToCard
              \<lparr>as_cardId = job_cardId job, as_imageId = existingId, as_role = ''primary_front'',
               as_sourceId = map_option src_id source, as_sourceUrl = job_sourceUrl job\<rparr>]
       (case w_upsertAssignment w of
          Some msg \<Rightarrow> pipelineCatch job (Error (''Failed to assign image to card: '' @ msg))
        | None \<Rightarrow>
            ((result Deduplicated)\<lparr>pr_imageId := Some existingId, pr_sha256 := Some sha256\<rparr>, []))"

definition fetchAndDedup :: "world \<Rightarrow> ImageJob \<Rightarrow> ImageSource option \<Rightarrow> int \<Rightarrow> string \<Rightarrow>
    ProcessResult \<times> effect list" where
  "fetchAndDedup w job source trustTier sourceName =
     (let fetchResult = fetchImage (w_net w) (job_sourceUrl job) (Some sourceName)
      in after [FetchImage (job_sourceUrl job) sourceName]
           (case (fr_ok fetchResult, fr_bytes fetchResult) of
              (True, Some bytes) \<Rightarrow>
                (let contentType = (case fr_contentType fetchResult of None \<Rightarrow> [] | Some c \<Rightarrow> c);
                     sha256 = w_computeSha256 w bytes
                 in after [LogIngestEvent ((event job EvFetchCompleted)
                             \<lparr>ev_httpStatus := fr_httpStatus fetchResult,
                              ev_metadata := Some [(''bytes'', JNum (real (length bytes))),
                                                   (''contentType'', JStr contentType)]\<rparr>),
                           FindImageBySha256 sha256]
                      (case w_findImageBySha256 w sha256 of
                         Some existingId \<Rightarrow> deduplicate w job source existingId sha256
                       | None \<Rightarrow> processNew w job source trustTier bytes contentType sha256))
            | _ \<Rightarrow>
                ((result Failed)\<lparr>pr_error := fr_error fetchResult\<rparr>,
                 [LogIngestEvent ((event job EvFetchFailed)
                    \<lparr>ev_message := fr_error fetchResult,
                     ev_httpStatus := fr_httpStatus fetchResult\<rparr>)])))"

text \<open>
  The whole job.  The bucket of a known source is installed anew by \<open>initBucket\<close> and
  then asked for a token; the two calls run without an \<open>await\<close> between them.  The result
  comes with the effects of the job and the buckets as the job leaves them.
\<close>

definition processImage :: "world \<Rightarrow> ImageJob \<Rightarrow> buckets \<Rightarrow> ProcessResult \<times> effect list \<times> buckets" where
  "processImage w job bs =
     (let started = LogIngestEvent ((event job EvFetchStarted)\<lparr>ev_message := Some (job_sourceUrl job)\<rparr>);
          (source, lookups) = resolveSource w job;
          trustTier = resolveTrustTier source job;
          sourceName = resolveSourceName source job
      in case source of
           None \<Rightarrow>
             (let (r, tr) = fetchAndDedup w job source trustTier sourceName
              in (r, started # lookups @ tr, bs))
         | Some s \<Rightarrow>
             (let bs1 = initBucket (src_id s) (src_maxRps s) (w_initTime w) bs;
                  (acquired, bs2) = tryAcquire (src_id s) (w_acquireTime w) bs1
              in if \<not> acquired
                 then
                   (let waitTime = getWaitTime (src_id s) bs2
                    in ((result RateLimited)
                          \<lparr>pr_error := Some (''Rate limited, retry after '' @ showJsint waitTime @ ''ms'')\<rparr>,
                        started # lookups, bs2))
                 else
                   (let (r, tr) = fetchAndDedup w job source trustTier sourceName
                    in (r, started # lookups @ tr, bs2))))"

definition jobResult :: "world \<Rightarrow> ImageJob \<Rightarrow> buckets \<Rightarrow> ProcessResult" where
  "jobResult w job bs = fst (processImage w job bs)"

definition jobEffects :: "world \<Rightarrow> ImageJob \<Rightarrow> buckets \<Rightarrow> effect list" where
  "jobEffects w job bs = fst (snd (processImage w job bs))"

text \<open>
  The effects that change the catalog's images, derivatives and assignments, or produce
  derivatives; the events, the look-ups, the fetch and the analysis stages are not among
  them.
\<close>

fun changesCatalog :: "effect \<Rightarrow> bool" where
  "changesCatalog (CreateImageRecord r) = True"
| "changesCatalog GenerateDerivatives = True"
| "changesCatalog (UploadDerivative p) = True"
| "changesCatalog (CreateDerivativeRecord r) = True"
| "changesCatalog (UpdateImageStatus i st) = True"
| "changesCatalog (AssignImageToCard a) = True"
| "changesCatalog e = False"

definition quiet :: "effect list \<Rightarrow> bool" where
  "quiet tr = (list_all (\<lambda>e. \<not> changesCatalog e) tr)"

text \<open>
  What may happen between the insert of the image row and the update of its status:
  derivatives are generated, uploaded and recorded, and events are logged.
\<close>

definition betweenInsertAndUpdate :: "effect list \<Rightarrow> bool" where
  "betweenInsertAndUpdate mid =
     list_all (\<lambda>x. case x of GenerateDerivatives \<Rightarrow> True | LogIngestEvent ev \<Rightarrow> True
                   | UploadDerivative p \<Rightarrow> True | CreateDerivativeRecord r \<Rightarrow> True | _ \<Rightarrow> False) mid"

text \<open>
  The events the pipeline logs on its way to a \<open>failed\<close> result, and the shape of such a
  run: it ends with that event.
\<close>

fun failureEvent :: "effect \<Rightarrow> bool" where
  "failureEvent (LogIngestEvent ev) =
     (ev_eventType ev = EvFetchFailed \<or> ev_eventType ev = EvValidationFailed)"
| "failureEvent e = False"

definition endsInFailureEvent :: "ProcessResult \<times> effect list \<Rightarrow> bool" where
  "endsInFailureEvent x =
     (if pr_status (fst x) = Failed then snd x \<noteq> [] \<and> failureEvent (last (snd x)) else True)"

section \<open>A concrete run\<close>

text \<open>
  Two jobs for the same card and URL, 50 ms apart, from a source of trust tier 3 with
  \<open>maxRps = 1\<close>.  The first job sees bytes the catalog does not know; the heuristic
  detector fails and the vision model answers \<open>FRONT\<close>.  When the second job runs the
  catalog knows the hash.
\<close>

definition exampleSource :: ImageSource where
  "exampleSource =
     \<lparr>src_id = ''s1'', src_name = ''example'', src_baseUrl = None, src_trustTier = 3,
      src_maxRps = 1, src_maxConcurrency = 1, src_isAllowed = True\<rparr>"

definition exampleJob :: ImageJob where
  "exampleJob =
     \<lparr>job_cardId = ''c1'', job_sourceUrl = ''http://x/a.jpg'', job_sourceId = Some ''s1'',
      job_sourceName = None, job_trustTier = None, job_priority = None,
      job_cardNumber = None, job_setCode = None\<rparr>"

definition firstWorld :: world where
  "firstWorld =
     \<lparr>w_startTime = 1000, w_initTime = 1000, w_acquireTime = 1000, w_endTime = 1040,
      w_getImageSource = (\<lambda>i. if i = ''s1'' then Some exampleSource else None),
      w_getImageSourceByName = (\<lambda>n. None),
      w_net = (\<lambda>u. HttpResponse 200 (Some ''image/jpeg'') (Inr [0xFF, 0xD8, 0xFF])),
      w_computeSha256 = (\<lambda>b. ''ab12''),
      w_findImageBySha256 = (\<lambda>h. None),
      w_readMetadata = (\<lambda>b. Inr \<lparr>sm_width = Some 734, sm_height = Some 1024,
                                   sm_format = Some ''jpeg''\<rparr>),
      w_resizeRaw = (\<lambda>b. Inl (Error ''unsupported image format'')),
      w_detectCollage = (\<lambda>b. False),
      w_apiKeyConfigured = True,
      w_vision = VisionOk (Some ''FRONT''),
      w_random = 0.5,
      w_insertImage = Inr ''img-1'',
      w_resizeWebp = (\<lambda>b t q. Inr \<lparr>rz_buffer = [0x52], rz_width = Some t, rz_height = Some t\<rparr>),
      w_upload = (\<lambda>p. None),
      w_insertDerivative = (\<lambda>v. None),
      w_upsertAssignment = None,
      w_numberToString = (\<lambda>x. ''0.95'')\<rparr>"

definition secondWorld :: world where
  "secondWorld =
     firstWorld\<lparr>w_startTime := 1050, w_initTime := 1050, w_acquireTime := 1050,
                w_endTime := 1090, w_findImageBySha256 := (\<lambda>h. Some ''img-1'')\<rparr>"

text \<open>The same second job when the upsert of the assignment fails in the catalog.\<close>

definition failingWorld :: world where
  "failingWorld = secondWorld\<lparr>w_upsertAssignment := Some ''violates foreign key constraint''\<rparr>"

text \<open>The first job again, with a vision model that answers \<open>BACK\<close>.\<close>

definition backWorld :: world where
  "backWorld = firstWorld\<lparr>w_vision := VisionOk (Some ''BACK'')\<rparr>"

text \<open>The first job again, with a blob store that refuses every upload.\<close>

definition uploadFailWorld :: world where
  "uploadFailWorld = firstWorld\<lparr>w_upload := (\<lambda>p. Some ''Bucket not found'')\<rparr>"

section \<open>Properties\<close>

subsection \<open>Shared facts about the pipeline\<close>

lemma fst_after [simp]: "fst (after tr x) = fst x"
  by (simp add: after_def)

lemma snd_after [simp]: "snd (after tr x) = tr @ snd x"
  by (simp add: after_def)

lemma pipelineCatch_result [simp]:
  "fst (pipelineCatch job e) = (result Failed)\<lparr>pr_error := Some (errorMessage e ''Unknown error'')\<rparr>"
  "snd (pipelineCatch job e) =
     [LogIngestEvent ((event job EvFetchFailed)\<lparr>ev_message := Some (errorMessage e ''Unknown error'')\<rparr>)]"
  by (simp_all add: pipelineCatch_def Let_def)

lemma status_result [simp]: "pr_status (result st) = st"
  by (simp add: result_def)

lemmas example_defs =
  firstWorld_def secondWorld_def exampleJob_def exampleSource_def

lemmas pipeline_defs =
  processImage_def resolveSource_def resolveTrustTier_def resolveSourceName_def
  fetchAndDedup_def deduplicate_def processNew_def persist_def assignOrReject_def canAssign_def
  classify_def pipelineCatch_def result_def

lemmas fetch_defs =
  fetchImage_def isKnownErrorPayload_def KNOWN_ERROR_PAYLOADS_def objectPrototypeKeys_def

text \<open>Everything needed to run the pipeline on a concrete world by rewriting.\<close>

lemmas run_defs =
  pipeline_defs fetch_defs initBucket_def tryAcquire_def Let_def case_prod_beta decodeImage_def
  falsyNat_def maxImagePixels_def detectSide_def analyzeBorderColors_def shouldRunVisionCheck_def
  checkWithVision_def toUpperCase_def toUpperChar_def trim_def isWhiteSpace_def
  minConfidenceForAssignment_def generateDerivatives_def jobResult_def jobEffects_def
  newImageRecord_def after_def event_def getDerivativeStoragePath_def getStoragePathPrefix_def

subsection \<open>The token bucket\<close>


text \<open>
  The invariant of a bucket at time \<open>now\<close>: no more tokens than its capacity, a refill
  rate that is not negative, and a last refill that is not in the future.  \<open>initBucket\<close>
  establishes it for a non-negative \<open>maxRps\<close> and \<open>tryAcquire\<close> keeps it.
\<close>

lemma initBucket_invariant:
  "0 \<le> maxRps \<Longrightarrow> initBucket sourceId maxRps now bs sourceId = Some b \<Longrightarrow>
     tokens b \<le> maxTokens b \<and> 0 \<le> refillRate b \<and> lastRefill b \<le> now"
  by (auto simp: initBucket_def)

lemma tryAcquire_invariant:
  assumes "\<forall>b. bs k = Some b \<longrightarrow> tokens b \<le> maxTokens b \<and> 0 \<le> refillRate b \<and> lastRefill b \<le> now"
    and "snd (tryAcquire sourceId now bs) k = Some b'"
  shows "tokens b' \<le> maxTokens b' \<and> 0 \<le> refillRate b' \<and> lastRefill b' \<le> now"
  using assms
  by (auto simp: tryAcquire_def Let_def split: option.splits if_splits)



subsection \<open>The rate check of the pipeline\<close>

lemma tryAcquire_after_initBucket:
  "1 \<le> maxRps \<Longrightarrow> fst (tryAcquire sourceId t2 (initBucket sourceId maxRps t1 bs))"
  by (simp add: tryAcquire_def initBucket_def Let_def)

lemma assignOrReject_not_rate_limited:
  "pr_status (fst (assignOrReject w job source imageId sha256 sideResult isCollage)) \<noteq> RateLimited"
  by (simp add: assignOrReject_def Let_def split: option.splits)

lemma persist_not_rate_limited:
  "pr_status (fst (persist w job source bytes contentType sha256 metadata sideResult isCollage))
     \<noteq> RateLimited"
  by (simp add: persist_def assignOrReject_not_rate_limited
      split: sum.splits prod.splits option.splits)

lemma processNew_not_rate_limited:
  "pr_status (fst (processNew w job source trustTier bytes contentType sha256)) \<noteq> RateLimited"
  by (simp add: processNew_def persist_not_rate_limited split: sum.splits prod.splits)

lemma deduplicate_not_rate_limited:
  "pr_status (fst (deduplicate w job source existingId sha256)) \<noteq> RateLimited"
  by (simp add: deduplicate_def split: option.splits)

lemma fetchAndDedup_not_rate_limited:
  "pr_status (fst (fetchAndDedup w job source trustTier sourceName)) \<noteq> RateLimited"
  by (simp add: fetchAndDedup_def Let_def processNew_not_rate_limited deduplicate_not_rate_limited
      split: option.splits bool.splits)

text \<open>
  Claim C3.  For every source id and every \<open>maxRps \<ge> 1\<close>, \<open>initBucket\<close> followed by
  \<open>tryAcquire\<close> answers true, whatever the two clock readings and the buckets before.
  Since \<open>processImage\<close> calls \<open>initBucket\<close> before each \<open>tryAcquire\<close>, a job whose
  source is known and has \<open>maxRps \<ge> 1\<close> never returns \<open>rate_limited\<close>.
\<close>

theorem rate_limited_branch_unreachable:
  "(1 \<le> maxRps \<longrightarrow> fst (tryAcquire sourceId t2 (initBucket sourceId maxRps t1 bs))) \<and>
   (fst (resolveSource w job) = Some s \<and> 1 \<le> src_maxRps s \<longrightarrow>
      pr_status (fst (processImage w job bs')) \<noteq> RateLimited)"
proof (intro conjI impI)
  assume "1 \<le> maxRps"
  then show "fst (tryAcquire sourceId t2 (initBucket sourceId maxRps t1 bs))"
    by (rule tryAcquire_after_initBucket)
next
  assume a: "fst (resolveSource w job) = Some s \<and> 1 \<le> src_maxRps s"
  then obtain lookups where r: "resolveSource w job = (Some s, lookups)"
    by (cases "resolveSource w job") auto
  from a have "fst (tryAcquire (src_id s) (w_acquireTime w)
                 (initBucket (src_id s) (src_maxRps s) (w_initTime w) bs'))"
    by (simp add: tryAcquire_after_initBucket)
  then show "pr_status (fst (processImage w job bs')) \<noteq> RateLimited"
    using r by (simp add: processImage_def Let_def case_prod_beta fetchAndDedup_not_rate_limited)
qed

text \<open>
  The second job of the concrete run, started on a bucket that has no token left and
  was refilled 50 ms earlier.
\<close>

theorem rate_limited_branch_unreachable_witness:
  "fst (tryAcquire ''s1'' 1050
         (initBucket ''s1'' 1 1050
            [''s1'' \<mapsto> \<lparr>tokens = 0, lastRefill = 1000, maxTokens = 1, refillRate = 1\<rparr>])) \<and>
   pr_status (fst (processImage secondWorld exampleJob
      [''s1'' \<mapsto> \<lparr>tokens = 0, lastRefill = 1000, maxTokens = 1, refillRate = 1\<rparr>])) \<noteq> RateLimited"
  using rate_limited_branch_unreachable
    [of 1 "''s1''" 1050 1050
        "[''s1'' \<mapsto> \<lparr>tokens = 0, lastRefill = 1000, maxTokens = 1, refillRate = 1\<rparr>]"
        secondWorld exampleJob exampleSource
        "[''s1'' \<mapsto> \<lparr>tokens = 0, lastRefill = 1000, maxTokens = 1, refillRate = 1\<rparr>]"]
  by (simp add: resolveSource_def example_defs)

text \<open>
  Claim C1, evaluated on the concrete run.  The first job completes and leaves the
  bucket of the source without a token.  Asked 50 ms later, that bucket would refuse and
  announce a wait of 1000 ms; but the second job installs a fresh bucket before it asks,
  is let through, fetches, and returns \<open>deduplicated\<close>.
\<close>

theorem second_job_is_not_rate_limited:
  "pr_status (fst (processImage firstWorld exampleJob Map.empty)) = Completed \<and>
   snd (snd (processImage firstWorld exampleJob Map.empty)) ''s1'' =
     Some \<lparr>tokens = 0, lastRefill = 1000, maxTokens = 1, refillRate = 1\<rparr> \<and>
   \<not> fst (tryAcquire ''s1'' 1050 (snd (snd (processImage firstWorld exampleJob Map.empty)))) \<and>
   getWaitTime ''s1''
     (snd (tryAcquire ''s1'' 1050 (snd (snd (processImage firstWorld exampleJob Map.empty))))) = Fin 1000 \<and>
   pr_status (fst (processImage secondWorld exampleJob
                (snd (snd (processImage firstWorld exampleJob Map.empty))))) = Deduplicated"
proof -
  have bucket: "snd (snd (processImage firstWorld exampleJob Map.empty)) ''s1'' =
      Some \<lparr>tokens = 0, lastRefill = 1000, maxTokens = 1, refillRate = 1\<rparr>"
    by (simp add: processImage_def resolveSource_def example_defs initBucket_def tryAcquire_def
        Let_def case_prod_beta)
  have first: "pr_status (fst (processImage firstWorld exampleJob Map.empty)) = Completed"
    by (simp add: pipeline_defs example_defs fetch_defs initBucket_def tryAcquire_def Let_def
        case_prod_beta decodeImage_def falsyNat_def maxImagePixels_def detectSide_def
        analyzeBorderColors_def shouldRunVisionCheck_def checkWithVision_def toUpperCase_def
        toUpperChar_def trim_def isWhiteSpace_def minConfidenceForAssignment_def
        generateDerivatives_def)
  have second: "pr_status (fst (processImage secondWorld exampleJob bs)) = Deduplicated" for bs
    by (simp add: pipeline_defs example_defs fetch_defs initBucket_def tryAcquire_def Let_def
        case_prod_beta)
  have refused: "\<not> fst (tryAcquire ''s1'' 1050 (snd (snd (processImage firstWorld exampleJob Map.empty))))"
    using bucket by (simp add: tryAcquire_def Let_def)
  have wait: "getWaitTime ''s1''
      (snd (tryAcquire ''s1'' 1050 (snd (snd (processImage firstWorld exampleJob Map.empty))))) = Fin 1000"
    using bucket by (simp add: tryAcquire_def getWaitTime_def Let_def)
  from first bucket refused wait second show ?thesis
    by blast
qed

subsection \<open>Known error payloads\<close>

text \<open>
  Claim C5.  When the response has a 2xx status, a content type that starts with
  \<open>image/\<close> and a body whose byte length is one of the entries of
  \<open>KNOWN_ERROR_PAYLOADS\<close> for the named source, \<open>fetchImage\<close> does not report success:
  it returns \<open>ok = false\<close> with the error \<open>known_error_payload\<close>.
\<close>

theorem fetchImage_known_error_payload:
  assumes "net url = HttpResponse st (Some ct) (Inr body)"
    and "200 \<le> st" and "st \<le> 299"
    and "startsWith ct ''image/''"
    and "KNOWN_ERROR_PAYLOADS name = Some sizes"
    and "length body \<in> set sizes"
  shows "fetchImage net url (Some name) =
           \<lparr>fr_ok = False, fr_bytes = None, fr_contentType = None,
            fr_error = Some ''known_error_payload'', fr_httpStatus = Some st\<rparr>"
proof -
  from assms(5) have "name \<noteq> []"
    by (auto simp: KNOWN_ERROR_PAYLOADS_def split: if_splits)
  with assms show ?thesis
    by (simp add: fetchImage_def isKnownErrorPayload_def fetchFailure_def)
qed

text \<open>The preloaded entry: a 186316 byte body served with status 200 for \<open>pokemontcg_api\<close>.\<close>

theorem fetchImage_known_error_payload_witness:
  "fetchImage (\<lambda>u. HttpResponse 200 (Some ''image/png'') (Inr (replicate 186316 0)))
      ''https://images.pokemontcg.io/x/1.png'' (Some ''pokemontcg_api'') =
           \<lparr>fr_ok = False, fr_bytes = None, fr_contentType = None,
            fr_error = Some ''known_error_payload'', fr_httpStatus = Some 200\<rparr>"
  using fetchImage_known_error_payload
     [of "\<lambda>u. HttpResponse 200 (Some ''image/png'') (Inr (replicate 186316 0))"
         "''https://images.pokemontcg.io/x/1.png''" 200 "''image/png''"
         "replicate 186316 0" "''pokemontcg_api''" "[186316]"]
  by (simp add: KNOWN_ERROR_PAYLOADS_def)

subsection \<open>When the vision model is consulted\<close>

text \<open>
  Claim C6.  \<open>shouldRunVisionCheck\<close> is false for trust tier 1 and true for trust tier 3,
  whatever the confidence, the sample rate and the random draw; for trust tier 2 it is
  true whenever the current confidence lies in \<open>[0.6, 0.9)\<close>.
\<close>

theorem shouldRunVisionCheck_by_tier:
  "\<not> shouldRunVisionCheck 1 c sampleRate random \<and>
   shouldRunVisionCheck 3 c sampleRate random \<and>
   (0.6 \<le> c \<and> c < 0.9 \<longrightarrow> shouldRunVisionCheck 2 c sampleRate random)"
  by (simp add: shouldRunVisionCheck_def visionCheckLowerBound_def visionCheckUpperBound_def)

theorem shouldRunVisionCheck_by_tier_witness:
  "\<not> shouldRunVisionCheck 1 0.7 0.1 0 \<and> shouldRunVisionCheck 3 0.7 0.1 0.99 \<and>
   shouldRunVisionCheck 2 0.6 0.1 0.99 \<and> shouldRunVisionCheck 2 0.7 0.1 0.99"
  using shouldRunVisionCheck_by_tier [of "0.7" "0.1" 0]
    shouldRunVisionCheck_by_tier [of "0.7" "0.1" "0.99"]
    shouldRunVisionCheck_by_tier [of "0.6" "0.1" "0.99"]
  by simp

subsection \<open>Side detection\<close>

text \<open>
  A hue lies between \<open>-60\<close> and \<open>300\<close> degrees, so its bucket is at most 10 and
  \<open>countPixel\<close> never writes past the twelve counters of the histogram.
\<close>

lemma jsRem_small:
  assumes "\<bar>x\<bar> \<le> 1"
  shows "jsRem x 6 = x"
proof (cases "0 \<le> x")
  case True
  with assms have "\<lfloor>x / 6\<rfloor> = 0" by (simp add: floor_eq_iff)
  with True show ?thesis by (simp add: jsRem_def)
next
  case False
  with assms have "\<lceil>x / 6\<rceil> = 0" by (simp add: ceiling_eq_iff)
  with False show ?thesis by (simp add: jsRem_def)
qed

lemma ratio_bounded:
  fixes a b d :: real
  assumes "0 < d" "\<bar>a - b\<bar> \<le> d"
  shows "\<bar>(a - b) / d\<bar> \<le> 1"
  using assms by (simp add: abs_le_iff pos_divide_le_eq pos_le_divide_eq)

lemma scaled_bounds:
  fixes x :: real
  assumes "\<bar>x\<bar> \<le> 1"
  shows "- 60 \<le> x * 60 \<and> x * 60 \<le> 300"
    and "- 60 \<le> (x + 2) * 60 \<and> (x + 2) * 60 \<le> 300"
    and "- 60 \<le> (x + 4) * 60 \<and> (x + 4) * 60 \<le> 300"
  using assms by (simp_all add: abs_le_iff)

lemma if_chain:
  fixes x y z k :: real
  assumes "h = (if A then x else if B then y else z) * k"
  shows "h = x * k \<or> h = y * k \<or> h = z * k"
  using assms by (simp split: if_splits)

lemma rgbToHue_range:
  assumes "rgbToHue r g b = Some h"
  shows "- 60 \<le> h \<and> h \<le> 300"
proof -
  from assms obtain r' g' b' where v: "r = Some r'" "g = Some g'" "b = Some b'"
    by (auto simp: rgbToHue_def split: option.splits)
  let ?mx = "max r' (max g' b')" and ?mn = "min r' (min g' b')"
  let ?d = "real ?mx - real ?mn"
  show ?thesis
  proof (cases "?d = 0")
    case True
    with assms v show ?thesis by (simp add: rgbToHue_def Let_def)
  next
    case False
    then have pos: "0 < ?d" by (simp add: max_def min_def split: if_splits)
    have gb: "\<bar>real g' - real b'\<bar> \<le> ?d" and br: "\<bar>real b' - real r'\<bar> \<le> ?d"
      and rg: "\<bar>real r' - real g'\<bar> \<le> ?d"
      by (auto simp: max_def min_def)
    from ratio_bounded [OF pos gb] have q1: "\<bar>(real g' - real b') / ?d\<bar> \<le> 1" .
    from ratio_bounded [OF pos br] have q2: "\<bar>(real b' - real r') / ?d\<bar> \<le> 1" .
    from ratio_bounded [OF pos rg] have q3: "\<bar>(real r' - real g') / ?d\<bar> \<le> 1" .
    from q1 have q1': "jsRem ((real g' - real b') / ?d) 6 = (real g' - real b') / ?d"
      by (rule jsRem_small)
    have eq: "h = (if ?mx = r' then jsRem ((real g' - real b') / ?d) 6
                   else if ?mx = g' then (real b' - real r') / ?d + 2
                   else (real r' - real g') / ?d + 4) * 60"
      using assms v False by (simp add: rgbToHue_def Let_def)
    from if_chain [OF eq] show ?thesis
    proof (elim disjE)
      assume "h = jsRem ((real g' - real b') / ?d) 6 * 60"
      then have hh: "h = (real g' - real b') / ?d * 60"
        by (simp only: q1')
      from scaled_bounds(1) [OF q1] show ?thesis unfolding hh .
    next
      assume hh: "h = ((real b' - real r') / ?d + 2) * 60"
      from scaled_bounds(2) [OF q2] show ?thesis unfolding hh .
    next
      assume hh: "h = ((real r' - real g') / ?d + 4) * 60"
      from scaled_bounds(3) [OF q3] show ?thesis unfolding hh .
    qed
  qed
qed

lemma hueBucket_below_12:
  assumes "rgbToHue r g b = Some h"
  shows "\<lfloor>h / 30\<rfloor> \<le> 10"
proof -
  from rgbToHue_range [OF assms] have "h / 30 \<le> 10" by simp
  then have "\<lfloor>h / 30\<rfloor> \<le> \<lfloor>10 :: real\<rfloor>" by (rule floor_mono)
  then show ?thesis by simp
qed

text \<open>
  Claim C10.  The confidence of every result of the heuristic side detector and of the
  vision checker lies in \<open>[0, 1]\<close>: for every raw buffer or failure of the imaging
  library and every metadata, and for every configuration and every outcome of the
  request to the vision model.
\<close>

theorem confidence_in_unit_interval:
  "0 \<le> confidence (detectSide resizeRaw buffer metadata) \<and>
   confidence (detectSide resizeRaw buffer metadata) \<le> 1 \<and>
   0 \<le> confidence (checkWithVision apiKeyConfigured outcome) \<and>
   confidence (checkWithVision apiKeyConfigured outcome) \<le> 1"
proof -
  have h: "0 \<le> confidence (detectSide resizeRaw buffer metadata) \<and>
           confidence (detectSide resizeRaw buffer metadata) \<le> 1"
    by (auto simp: detectSide_def Let_def split: sum.splits)
  have v: "0 \<le> confidence (checkWithVision apiKeyConfigured outcome) \<and>
           confidence (checkWithVision apiKeyConfigured outcome) \<le> 1"
    by (auto simp: checkWithVision_def Let_def split: vision_outcome.splits)
  from h v show ?thesis by blast
qed

subsection \<open>Derivatives\<close>

lemma generateLoop_widths:
  assumes contract: "\<forall>t q p w. resizeWebp buffer t q = Inr p \<and> rz_width p = Some w \<longrightarrow> w \<le> t"
    and "generateLoop resizeWebp buffer sha256 originalWidth vs acc = Inr ds"
    and "\<forall>d \<in> set acc. dr_width d \<le> min (ds_width (derivativeSizes (dr_variant d))) originalWidth"
  shows "\<forall>d \<in> set ds. dr_width d \<le> min (ds_width (derivativeSizes (dr_variant d))) originalWidth"
  using assms(2,3)
proof (induction vs arbitrary: acc)
  case Nil
  then show ?case by simp
next
  case (Cons v vs)
  let ?t = "min (ds_width (derivativeSizes v)) originalWidth"
  from Cons.prems(1) obtain p where p: "resizeWebp buffer ?t (ds_quality (derivativeSizes v)) = Inr p"
    by (auto simp: Let_def split: sum.splits)
  let ?d = "\<lparr>dr_variant = v, dr_buffer = rz_buffer p,
             dr_width = (if falsyNat (rz_width p) then ?t else the (rz_width p)),
             dr_height = (if falsyNat (rz_height p) then 0 else the (rz_height p)),
             dr_bytes = length (rz_buffer p),
             dr_storagePath = getDerivativeStoragePath sha256 (variantName v)\<rparr>"
  from Cons.prems(1) p have loop: "generateLoop resizeWebp buffer sha256 originalWidth vs (acc @ [?d]) = Inr ds"
    by (simp add: Let_def)
  have "dr_width ?d \<le> ?t"
  proof (cases "rz_width p")
    case None
    then show ?thesis by (simp add: falsyNat_def)
  next
    case (Some w)
    with contract p have "w \<le> ?t" by blast
    with Some show ?thesis by (simp add: falsyNat_def)
  qed
  then have "\<forall>d \<in> set (acc @ [?d]). dr_width d \<le> min (ds_width (derivativeSizes (dr_variant d))) originalWidth"
    using Cons.prems(2) by simp
  from Cons.IH [OF loop this] show ?case .
qed

lemma generateLoop_variants:
  "generateLoop resizeWebp buffer sha256 originalWidth vs acc = Inr ds \<Longrightarrow>
     map dr_variant ds = map dr_variant acc @ vs"
  by (induction vs arbitrary: acc) (auto simp: Let_def split: sum.splits)

text \<open>
  Claim C7.  Provided the imaging library keeps its contract for \<open>fit: 'inside'\<close> (the
  width it reports for a resized image does not exceed the width it was asked for),
  \<open>generateDerivatives\<close> produces the variants thumb, grid and detail, with targets 160,
  360 and 960, and the width recorded for each is at most the minimum of its target and
  the original width; in particular no derivative is wider than the original.
\<close>

theorem derivatives_never_upscaled:
  assumes "\<forall>t q p w. resizeWebp buffer t q = Inr p \<and> rz_width p = Some w \<longrightarrow> w \<le> t"
    and "generateDerivatives resizeWebp buffer sha256 originalWidth = Inr ds"
  shows "map dr_variant ds = [Thumb, Grid, Detail] \<and>
         map (\<lambda>d. ds_width (derivativeSizes (dr_variant d))) ds = [160, 360, 960] \<and>
         (\<forall>d \<in> set ds. dr_width d \<le> min (ds_width (derivativeSizes (dr_variant d))) originalWidth \<and>
                        dr_width d \<le> originalWidth)"
proof -
  from assms(2) have loop: "generateLoop resizeWebp buffer sha256 originalWidth [Thumb, Grid, Detail] [] = Inr ds"
    by (simp add: generateDerivatives_def)
  from generateLoop_variants [OF loop] have v: "map dr_variant ds = [Thumb, Grid, Detail]"
    by simp
  then have "map (\<lambda>d. ds_width (derivativeSizes (dr_variant d))) ds =
             map (\<lambda>v. ds_width (derivativeSizes v)) [Thumb, Grid, Detail]"
    by (metis (no_types, lifting) map_map comp_apply map_eq_conv)
  then have t: "map (\<lambda>d. ds_width (derivativeSizes (dr_variant d))) ds = [160, 360, 960]"
    by simp
  from generateLoop_widths [OF assms(1) loop]
  have "\<forall>d \<in> set ds. dr_width d \<le> min (ds_width (derivativeSizes (dr_variant d))) originalWidth"
    by simp
  with v t show ?thesis by auto
qed

text \<open>An original of width 734: the widths recorded are 160, 360 and 734.\<close>

theorem derivatives_never_upscaled_witness:
  "map dr_width (projr (generateDerivatives (w_resizeWebp firstWorld) [0xFF, 0xD8, 0xFF] ''ab12'' 734))
     = [160, 360, 734] \<and>
   list_all (\<lambda>d. dr_width d \<le> min (ds_width (derivativeSizes (dr_variant d))) 734)
     (projr (generateDerivatives (w_resizeWebp firstWorld) [0xFF, 0xD8, 0xFF] ''ab12'' 734))"
proof -
  let ?ds = "projr (generateDerivatives (w_resizeWebp firstWorld) [0xFF, 0xD8, 0xFF] ''ab12'' 734)"
  have c: "\<forall>t q p w. w_resizeWebp firstWorld [0xFF, 0xD8, 0xFF] t q = Inr p \<and> rz_width p = Some w \<longrightarrow> w \<le> t"
    by (auto simp: firstWorld_def)
  have g: "generateDerivatives (w_resizeWebp firstWorld) [0xFF, 0xD8, 0xFF] ''ab12'' 734 = Inr ?ds"
    by (simp add: generateDerivatives_def firstWorld_def Let_def)
  have w: "map dr_width ?ds = [160, 360, 734]"
    by (simp add: generateDerivatives_def firstWorld_def Let_def falsyNat_def)
  from derivatives_never_upscaled [OF c g] show ?thesis
    using w by (simp add: list_all_iff)
qed

subsection \<open>The paths through the pipeline\<close>

lemma quiet_append [simp]: "quiet (xs @ ys) = (quiet xs \<and> quiet ys)"
  by (simp add: quiet_def)

lemma quiet_Cons [simp]: "quiet (x # xs) = (\<not> changesCatalog x \<and> quiet xs)"
  by (simp add: quiet_def)

lemma quiet_Nil [simp]: "quiet []"
  by (simp add: quiet_def)

lemma quiet_notin: "quiet tr \<Longrightarrow> changesCatalog e \<Longrightarrow> e \<notin> set tr"
  by (auto simp: quiet_def list_all_iff)

lemma resolveSource_quiet: "quiet (snd (resolveSource w job))"
  by (simp add: resolveSource_def Let_def split: option.splits prod.splits)

lemma classify_quiet: "classify w trustTier bytes metadata = (sr, ic, calls) \<Longrightarrow> quiet calls"
  by (auto simp: classify_def Let_def split: if_splits)

lemma quiet_no_writes:
  assumes "quiet tr"
  shows "UpdateImageStatus i st \<notin> set tr" and "CreateImageRecord r \<notin> set tr"
    and "AssignImageToCard a \<notin> set tr"
  using assms by (simp_all add: quiet_notin)

lemma assignOrReject_effects:
  "e \<in> set (snd (assignOrReject w job source imageId sha256 sr ic)) \<Longrightarrow>
     (\<exists>a. e = AssignImageToCard a) \<or> (\<exists>ev. e = LogIngestEvent ev)"
  by (auto simp: assignOrReject_def Let_def split: if_splits option.splits)

lemma assignOrReject_gate_open:
  "canAssign sr ic \<Longrightarrow>
     (\<exists>a. AssignImageToCard a \<in> set (snd (assignOrReject w job source imageId sha256 sr ic))) \<and>
     (pr_status (fst (assignOrReject w job source imageId sha256 sr ic)) = Completed \<or>
      pr_status (fst (assignOrReject w job source imageId sha256 sr ic)) = Failed)"
  by (auto simp: assignOrReject_def Let_def split: option.splits)

lemma assignOrReject_completed:
  "pr_status (fst (assignOrReject w job source imageId sha256 sr ic)) = Completed \<Longrightarrow>
     canAssign sr ic \<and>
     pr_detectedSide (fst (assignOrReject w job source imageId sha256 sr ic)) = Some (side sr) \<and>
     pr_confidence (fst (assignOrReject w job source imageId sha256 sr ic)) = Some (confidence sr)"
  by (auto simp: assignOrReject_def Let_def result_def split: if_splits option.splits)

lemma assignOrReject_gate_closed:
  "\<not> canAssign sr ic \<Longrightarrow>
     pr_status (fst (assignOrReject w job source imageId sha256 sr ic)) = Rejected \<and>
     pr_error (fst (assignOrReject w job source imageId sha256 sr ic)) =
       Some (''Not assigned: side='' @ sideName (side sr) @ '', confidence='' @
             toFixed2 (confidence sr) @ '', isCollage='' @ boolName ic)"
  by (simp add: assignOrReject_def result_def)

lemma between_simps [simp]:
  "betweenInsertAndUpdate []"
  "betweenInsertAndUpdate (x # xs) =
     ((case x of GenerateDerivatives \<Rightarrow> True | LogIngestEvent ev \<Rightarrow> True
        | UploadDerivative p \<Rightarrow> True | CreateDerivativeRecord r \<Rightarrow> True | _ \<Rightarrow> False) \<and>
      betweenInsertAndUpdate xs)"
  "betweenInsertAndUpdate (xs @ ys) = (betweenInsertAndUpdate xs \<and> betweenInsertAndUpdate ys)"
  by (simp_all add: betweenInsertAndUpdate_def)

lemma between_uploads: "uploadDerivatives upload ds = (x, tr) \<Longrightarrow> betweenInsertAndUpdate tr"
  by (induction ds arbitrary: x tr) (auto split: option.splits prod.splits)

lemma between_inserts: "recordDerivatives ins imageId ds = (x, tr) \<Longrightarrow> betweenInsertAndUpdate tr"
  by (induction ds arbitrary: x tr) (auto simp: Let_def split: option.splits prod.splits)

lemma between_notin:
  "betweenInsertAndUpdate mid \<Longrightarrow>
     CreateImageRecord r \<notin> set mid \<and> UpdateImageStatus i st \<notin> set mid \<and>
     AssignImageToCard a \<notin> set mid"
  by (induction mid) (auto split: effect.splits)

text \<open>
  The ways through \<open>persist\<close>: a stage throws (the insert of the image row, the
  generation, an upload or the insert of a derivative row) and the \<open>catch\<close> block ends
  the job; or every stage succeeds, the status is set to \<open>completed\<close> and the gate
  decides.
\<close>

lemma persist_cases:
  fixes w job source bytes ct sha256 md sr ic
  defines "p \<equiv> persist w job source bytes ct sha256 md sr ic"
    and "opening \<equiv> [LogIngestEvent (event job EvProcessingStarted),
                     CreateImageRecord (newImageRecord bytes ct sha256 md sr ic)]"
  obtains
    (stage_failed) mid e where "pr_status (fst p) = Failed" "betweenInsertAndUpdate mid"
      "snd p = opening @ mid @ snd (pipelineCatch job e)"
  | (finished) mid imageId ev where "betweenInsertAndUpdate mid"
      "fst p = fst (assignOrReject w job source imageId sha256 sr ic)"
      "snd p = opening @ mid @ [UpdateImageStatus imageId ''completed'', LogIngestEvent ev] @
               snd (assignOrReject w job source imageId sha256 sr ic)"
proof (cases "w_insertImage w")
  case (Inl msg)
  then have "pr_status (fst p) = Failed"
    and "snd p = opening @ [] @ snd (pipelineCatch job (Error (''Failed to create image record: '' @ msg)))"
    by (simp_all add: p_def opening_def persist_def)
  then show ?thesis
    using stage_failed [of "[]"] by simp
next
  case (Inr imageId)
  note ins = this
  show ?thesis
  proof (cases "generateDerivatives (w_resizeWebp w) bytes sha256 (md_width md)")
    case (Inl e)
    with ins have "pr_status (fst p) = Failed"
      and "snd p = opening @ [GenerateDerivatives] @ snd (pipelineCatch job e)"
      by (simp_all add: p_def opening_def persist_def)
    then show ?thesis
      using stage_failed [of "[GenerateDerivatives]"] by simp
  next
    case (Inr ds)
    note gen = this
    obtain ue ups where up: "uploadDerivatives (w_upload w) ds = (ue, ups)"
      by (cases "uploadDerivatives (w_upload w) ds") auto
    obtain re recs where rc: "recordDerivatives (w_insertDerivative w) imageId ds = (re, recs)"
      by (cases "recordDerivatives (w_insertDerivative w) imageId ds") auto
    from up have bu: "betweenInsertAndUpdate ups" by (rule between_uploads)
    from rc have br: "betweenInsertAndUpdate recs" by (rule between_inserts)
    show ?thesis
    proof (cases ue)
      case (Some e)
      with ins gen up have "pr_status (fst p) = Failed"
        and "snd p = opening @ (GenerateDerivatives #
               LogIngestEvent ((event job EvDerivativesGenerated)
                 \<lparr>ev_imageId := Some imageId,
                  ev_metadata := Some [(''count'', JNum (real (length ds)))]\<rparr>) # ups)
               @ snd (pipelineCatch job e)"
        by (simp_all add: p_def opening_def persist_def)
      then show ?thesis
        using bu stage_failed by simp
    next
      case None
      note upok = this
      show ?thesis
      proof (cases re)
        case (Some e)
        with ins gen up upok rc have "pr_status (fst p) = Failed"
          and "snd p = opening @ (GenerateDerivatives #
                 LogIngestEvent ((event job EvDerivativesGenerated)
                   \<lparr>ev_imageId := Some imageId,
                    ev_metadata := Some [(''count'', JNum (real (length ds)))]\<rparr>) # ups @
                 LogIngestEvent ((event job EvUploadCompleted)\<lparr>ev_imageId := Some imageId\<rparr>) # recs)
                 @ snd (pipelineCatch job e)"
          by (simp_all add: p_def opening_def persist_def)
        then show ?thesis
          using bu br stage_failed by simp
      next
        case None
        let ?mid = "GenerateDerivatives #
                 LogIngestEvent ((event job EvDerivativesGenerated)
                   \<lparr>ev_imageId := Some imageId,
                    ev_metadata := Some [(''count'', JNum (real (length ds)))]\<rparr>) # ups @
                 LogIngestEvent ((event job EvUploadCompleted)\<lparr>ev_imageId := Some imageId\<rparr>) # recs"
        let ?ev = "(event job EvProcessingCompleted)
                      \<lparr>ev_imageId := Some imageId,
                       ev_metadata := Some [(''elapsed_ms'',
                         JNum (real_of_int (w_endTime w - w_startTime w)))]\<rparr>"
        have b: "betweenInsertAndUpdate ?mid"
          using bu br by simp
        from None ins gen up upok rc
        have f: "fst p = fst (assignOrReject w job source imageId sha256 sr ic)"
          by (simp add: p_def persist_def)
        from None ins gen up upok rc
        have t: "snd p = opening @ ?mid @ [UpdateImageStatus imageId ''completed'', LogIngestEvent ?ev]
                 @ snd (assignOrReject w job source imageId sha256 sr ic)"
          by (simp add: p_def opening_def persist_def)
        show ?thesis
          by (rule finished [OF b f t])
      qed
    qed
  qed
qed

lemma persist_create:
  assumes "CreateImageRecord r \<in> set (snd (persist w job source bytes ct sha256 md sr ic))"
  shows "r = newImageRecord bytes ct sha256 md sr ic"
proof (cases rule: persist_cases [of w job source bytes ct sha256 md sr ic])
  case (stage_failed mid e)
  with assms between_notin [OF stage_failed(2), of r] show ?thesis
    by auto
next
  case (finished mid imageId ev)
  with assms between_notin [OF finished(1), of r] show ?thesis
    by (auto dest: assignOrReject_effects)
qed

lemma persist_update:
  assumes "UpdateImageStatus i st \<in> set (snd (persist w job source bytes ct sha256 md sr ic))"
  shows "st = ''completed'' \<and>
         fst (persist w job source bytes ct sha256 md sr ic) =
           fst (assignOrReject w job source i sha256 sr ic)"
proof (cases rule: persist_cases [of w job source bytes ct sha256 md sr ic])
  case (stage_failed mid e)
  with assms between_notin [OF stage_failed(2), of _ i st] show ?thesis
    by auto
next
  case (finished mid imageId ev)
  with assms between_notin [OF finished(1), of _ i st] show ?thesis
    by (auto dest: assignOrReject_effects)
qed

lemma persist_completed:
  assumes "pr_status (fst (persist w job source bytes ct sha256 md sr ic)) = Completed"
  shows "canAssign sr ic \<and>
         pr_detectedSide (fst (persist w job source bytes ct sha256 md sr ic)) = Some (side sr) \<and>
         pr_confidence (fst (persist w job source bytes ct sha256 md sr ic)) = Some (confidence sr)"
proof (cases rule: persist_cases [of w job source bytes ct sha256 md sr ic])
  case (stage_failed mid e)
  with assms show ?thesis by simp
next
  case (finished mid imageId ev)
  with assms assignOrReject_completed [of w job source imageId sha256 sr ic] show ?thesis
    by simp
qed

lemma persist_creates:
  "CreateImageRecord (newImageRecord bytes ct sha256 md sr ic)
     \<in> set (snd (persist w job source bytes ct sha256 md sr ic))"
  by (simp add: persist_def)

lemma persist_failed_before_assignment:
  assumes "pr_status (fst (persist w job source bytes ct sha256 md sr ic)) = Failed"
    and "\<forall>a. AssignImageToCard a \<notin> set (snd (persist w job source bytes ct sha256 md sr ic))"
  shows "UpdateImageStatus i st \<notin> set (snd (persist w job source bytes ct sha256 md sr ic))"
proof (cases rule: persist_cases [of w job source bytes ct sha256 md sr ic])
  case (stage_failed mid e)
  with between_notin [OF stage_failed(2), of _ i st] show ?thesis
    by auto
next
  case (finished mid imageId ev)
  show ?thesis
  proof (cases "canAssign sr ic")
    case True
    with assignOrReject_gate_open [of sr ic w job source imageId sha256] finished(3) assms(2)
    show ?thesis by auto
  next
    case False
    with assignOrReject_gate_closed [of sr ic w job source imageId sha256] finished(2) assms(1)
    show ?thesis by auto
  qed
qed

lemma deduplicate_facts:
  "\<not> (\<exists>r. CreateImageRecord r \<in> set (snd (deduplicate w job source existingId sha256)))"
  "\<not> (\<exists>i st. UpdateImageStatus i st \<in> set (snd (deduplicate w job source existingId sha256)))"
  "\<exists>a. AssignImageToCard a \<in> set (snd (deduplicate w job source existingId sha256))"
  "pr_status (fst (deduplicate w job source existingId sha256)) = Deduplicated \<or>
   pr_status (fst (deduplicate w job source existingId sha256)) = Failed"
  by (auto simp: deduplicate_def split: option.splits)

text \<open>
  Every run is a quiet prefix followed by nothing more, by a deduplication, or by
  \<open>persist\<close>.
\<close>

lemma processNew_shape:
  "(\<exists>pre. quiet pre \<and> processNew w job source trustTier bytes contentType sha256
             = (fst (processNew w job source trustTier bytes contentType sha256), pre) \<and>
           pr_status (fst (processNew w job source trustTier bytes contentType sha256)) = Failed) \<or>
   (\<exists>pre metadata sideResult isCollage. quiet pre \<and>
      processNew w job source trustTier bytes contentType sha256 =
        after pre (persist w job source bytes contentType sha256 metadata sideResult isCollage))"
proof (cases "decodeImage (w_readMetadata w) bytes")
  case (Inl msg)
  then show ?thesis
    by (intro disjI1) (simp add: processNew_def after_def)
next
  case (Inr metadata)
  obtain sr ic calls where c: "classify w trustTier bytes metadata = (sr, ic, calls)"
    by (cases "classify w trustTier bytes metadata") auto
  then have "quiet calls" by (rule classify_quiet)
  with Inr c show ?thesis
    apply (intro disjI2)
    apply (rule exI [where x = "DecodeImage # calls @ [LogIngestEvent ((event job EvValidationPassed)
                    \<lparr>ev_metadata := Some
                       [(''width'', JNum (real (md_width metadata))),
                        (''height'', JNum (real (md_height metadata))),
                        (''side'', JStr (sideName (side sr))),
                        (''confidence'', JNum (confidence sr)),
                        (''isCollage'', JBool ic),
                        (''method'', JStr (methodName (method' sr)))]\<rparr>)]"])
    apply (rule exI [where x = metadata])
    apply (rule exI [where x = sr])
    apply (rule exI [where x = ic])
    apply (simp add: processNew_def after_def)
    done
qed

lemma fetchAndDedup_cases:
  fixes w job source trustTier sourceName
  defines "f \<equiv> fetchAndDedup w job source trustTier sourceName"
  obtains
    (stopped) "quiet (snd f)" "pr_status (fst f) = Failed"
  | (dedup) pre existingId sha256 where "quiet pre"
      "fst f = fst (deduplicate w job source existingId sha256)"
      "snd f = pre @ snd (deduplicate w job source existingId sha256)"
  | (new) pre bytes ct sha256 md sr ic where "quiet pre"
      "fst f = fst (persist w job source bytes ct sha256 md sr ic)"
      "snd f = pre @ snd (persist w job source bytes ct sha256 md sr ic)"
proof -
  let ?fr = "fetchImage (w_net w) (job_sourceUrl job) (Some sourceName)"
  show ?thesis
  proof (cases "fr_ok ?fr \<and> fr_bytes ?fr \<noteq> None")
    case False
    then have "quiet (snd f)" and "pr_status (fst f) = Failed"
      by (auto simp: f_def fetchAndDedup_def Let_def split: option.splits bool.splits)
    then show ?thesis by (rule stopped)
  next
    case True
    then obtain bytes where b: "fr_ok ?fr" "fr_bytes ?fr = Some bytes" by auto
    let ?ct = "case fr_contentType ?fr of None \<Rightarrow> [] | Some c \<Rightarrow> c"
    let ?sha = "w_computeSha256 w bytes"
    let ?pre = "[FetchImage (job_sourceUrl job) sourceName,
                 LogIngestEvent ((event job EvFetchCompleted)
                             \<lparr>ev_httpStatus := fr_httpStatus ?fr,
                              ev_metadata := Some [(''bytes'', JNum (real (length bytes))),
                                                   (''contentType'', JStr ?ct)]\<rparr>),
                 FindImageBySha256 ?sha]"
    show ?thesis
    proof (cases "w_findImageBySha256 w ?sha")
      case (Some existingId)
      have q: "quiet ?pre" by simp
      from b Some have "fst f = fst (deduplicate w job source existingId ?sha)"
        and "snd f = ?pre @ snd (deduplicate w job source existingId ?sha)"
        by (simp_all add: f_def fetchAndDedup_def Let_def)
      then show ?thesis
        by (rule dedup [OF q])
    next
      case None
      from b None have fn: "fst f = fst (processNew w job source trustTier bytes ?ct ?sha)"
        and sn: "snd f = ?pre @ snd (processNew w job source trustTier bytes ?ct ?sha)"
        by (simp_all add: f_def fetchAndDedup_def Let_def)
      from processNew_shape [of w job source trustTier bytes ?ct ?sha] show ?thesis
      proof (elim disjE exE conjE)
        fix pre
        assume "quiet pre" and eq: "processNew w job source trustTier bytes ?ct ?sha
             = (fst (processNew w job source trustTier bytes ?ct ?sha), pre)"
          and "pr_status (fst (processNew w job source trustTier bytes ?ct ?sha)) = Failed"
        moreover from eq have "snd (processNew w job source trustTier bytes ?ct ?sha) = pre"
          by (metis snd_conv)
        ultimately have "quiet (snd f)" and "pr_status (fst f) = Failed"
          using fn sn by simp_all
        then show ?thesis by (rule stopped)
      next
        fix pre metadata sideResult isCollage
        assume q: "quiet pre" and eq: "processNew w job source trustTier bytes ?ct ?sha =
            after pre (persist w job source bytes ?ct ?sha metadata sideResult isCollage)"
        have q': "quiet (?pre @ pre)" using q by simp
        from eq fn have "fst f = fst (persist w job source bytes ?ct ?sha metadata sideResult isCollage)"
          by simp
        moreover from eq sn have "snd f = (?pre @ pre) @
             snd (persist w job source bytes ?ct ?sha metadata sideResult isCollage)"
          by simp
        ultimately show ?thesis
          by (rule new [OF q'])
      qed
    qed
  qed
qed

lemma processImage_cases:
  fixes w job bs
  defines "R \<equiv> fst (processImage w job bs)"
    and "T \<equiv> fst (snd (processImage w job bs))"
    and "source \<equiv> fst (resolveSource w job)"
  obtains
    (stopped) "quiet T" "pr_status R = RateLimited \<or> pr_status R = Failed"
  | (dedup) pre existingId sha256 where "quiet pre"
      "R = fst (deduplicate w job source existingId sha256)"
      "T = pre @ snd (deduplicate w job source existingId sha256)"
  | (new) pre bytes ct sha256 md sr ic where "quiet pre"
      "R = fst (persist w job source bytes ct sha256 md sr ic)"
      "T = pre @ snd (persist w job source bytes ct sha256 md sr ic)"
proof -
  obtain lookups where r: "resolveSource w job = (source, lookups)"
    by (cases "resolveSource w job") (auto simp: source_def)
  from resolveSource_quiet [of w job] r have ql: "quiet lookups" by simp
  let ?started = "LogIngestEvent ((event job EvFetchStarted)\<lparr>ev_message := Some (job_sourceUrl job)\<rparr>)"
  let ?f = "fetchAndDedup w job source (resolveTrustTier source job) (resolveSourceName source job)"
  have qs: "quiet (?started # lookups)" using ql by simp
  show ?thesis
  proof (cases "pr_status R = RateLimited")
    case True
    then have "quiet T"
      using r ql
      by (auto simp: R_def T_def processImage_def Let_def case_prod_beta fetchAndDedup_not_rate_limited
          split: option.splits if_splits)
    with True show ?thesis by (intro stopped) auto
  next
    case False
    with r have fR: "R = fst ?f" and fT: "T = (?started # lookups) @ snd ?f"
      by (auto simp: R_def T_def processImage_def Let_def case_prod_beta
          split: option.splits if_splits)
    show ?thesis
    proof (cases rule: fetchAndDedup_cases [of w job source "resolveTrustTier source job"
            "resolveSourceName source job"])
      case stopped
      with fR fT qs show ?thesis
        by (intro that(1)) auto
    next
      case (dedup pre existingId sha256)
      have "quiet ((?started # lookups) @ pre)" using qs dedup(1) by simp
      moreover have "R = fst (deduplicate w job source existingId sha256)"
        using fR dedup(2) by simp
      moreover have "T = ((?started # lookups) @ pre) @ snd (deduplicate w job source existingId sha256)"
        using fT dedup(3) by simp
      ultimately show ?thesis by (rule that(2))
    next
      case (new pre bytes ct sha256 md sr ic)
      have "quiet ((?started # lookups) @ pre)" using qs new(1) by simp
      moreover have "R = fst (persist w job source bytes ct sha256 md sr ic)"
        using fR new(2) by simp
      moreover have "T = ((?started # lookups) @ pre) @ snd (persist w job source bytes ct sha256 md sr ic)"
        using fT new(3) by simp
      ultimately show ?thesis by (rule that(3))
    qed
  qed
qed

subsection \<open>The assignment gate\<close>

lemma gate_of_record:
  "canAssign sr ic =
     (ir_detectedSide (newImageRecord bytes ct sha256 md sr ic) = Front \<and>
      0.85 \<le> ir_sideConfidence (newImageRecord bytes ct sha256 md sr ic) \<and>
      \<not> ir_isCollage (newImageRecord bytes ct sha256 md sr ic))"
  by (simp add: canAssign_def newImageRecord_def minConfidenceForAssignment_def)

text \<open>
  Claim C2.  If \<open>processImage\<close> returns \<open>completed\<close>, the image row it inserted records
  the side \<open>front\<close>, a confidence of at least 0.85 and no collage, and the result
  carries that side and confidence.  If processing succeeded (the status of the row was
  set to \<open>completed\<close>) and the row fails one of the three conditions, the result is
  \<open>rejected\<close> with the error \<open>Not assigned: side=<s>, confidence=<c.toFixed(2)>,
  isCollage=<b>\<close>.
\<close>

theorem assignment_gate:
  "(pr_status (jobResult w job bs) = Completed \<longrightarrow>
      (\<exists>r. CreateImageRecord r \<in> set (jobEffects w job bs) \<and>
            ir_detectedSide r = Front \<and> 0.85 \<le> ir_sideConfidence r \<and> \<not> ir_isCollage r \<and>
            pr_detectedSide (jobResult w job bs) = Some Front \<and>
            pr_confidence (jobResult w job bs) = Some (ir_sideConfidence r))) \<and>
   (UpdateImageStatus i ''completed'' \<in> set (jobEffects w job bs) \<and>
    CreateImageRecord r \<in> set (jobEffects w job bs) \<and>
    \<not> (ir_detectedSide r = Front \<and> 0.85 \<le> ir_sideConfidence r \<and> \<not> ir_isCollage r) \<longrightarrow>
      pr_status (jobResult w job bs) = Rejected \<and>
      pr_error (jobResult w job bs) =
        Some (''Not assigned: side='' @ sideName (ir_detectedSide r) @ '', confidence='' @
              toFixed2 (ir_sideConfidence r) @ '', isCollage='' @ boolName (ir_isCollage r)))"
proof (cases rule: processImage_cases [of w job bs])
  case stopped
  from stopped(2) have "pr_status (jobResult w job bs) \<noteq> Completed"
    by (auto simp: jobResult_def)
  moreover from stopped(1) have "CreateImageRecord r \<notin> set (jobEffects w job bs)"
    by (simp add: jobEffects_def quiet_no_writes)
  ultimately show ?thesis by blast
next
  case (dedup pre existingId sha256)
  from dedup(2) deduplicate_facts(4) [of w job "fst (resolveSource w job)" existingId sha256]
  have "pr_status (jobResult w job bs) \<noteq> Completed"
    by (auto simp: jobResult_def)
  moreover from dedup(1,3) deduplicate_facts(1) [of w job "fst (resolveSource w job)" existingId sha256]
  have "CreateImageRecord r \<notin> set (jobEffects w job bs)"
    by (auto simp: jobEffects_def quiet_no_writes)
  ultimately show ?thesis by blast
next
  case (new pre bytes ct sha256 md sr ic)
  let ?p = "persist w job (fst (resolveSource w job)) bytes ct sha256 md sr ic"
  let ?rec = "newImageRecord bytes ct sha256 md sr ic"
  have first: "\<exists>r. CreateImageRecord r \<in> set (jobEffects w job bs) \<and>
            ir_detectedSide r = Front \<and> 0.85 \<le> ir_sideConfidence r \<and> \<not> ir_isCollage r \<and>
            pr_detectedSide (jobResult w job bs) = Some Front \<and>
            pr_confidence (jobResult w job bs) = Some (ir_sideConfidence r)"
    if c: "pr_status (jobResult w job bs) = Completed"
  proof -
    from c new(2) have "pr_status (fst ?p) = Completed"
      by (simp add: jobResult_def)
    from persist_completed [OF this]
    have g: "canAssign sr ic" and s: "pr_detectedSide (fst ?p) = Some (side sr)"
      and k: "pr_confidence (fst ?p) = Some (confidence sr)"
      by simp_all
    have m: "CreateImageRecord ?rec \<in> set (jobEffects w job bs)"
      using new(3) persist_creates [of bytes ct sha256 md sr ic w job "fst (resolveSource w job)"]
      by (simp add: jobEffects_def)
    from g have "ir_detectedSide ?rec = Front \<and> 0.85 \<le> ir_sideConfidence ?rec \<and> \<not> ir_isCollage ?rec"
      using gate_of_record [of sr ic bytes ct sha256 md] by blast
    moreover from g s have "pr_detectedSide (jobResult w job bs) = Some Front"
      using new(2) by (simp add: jobResult_def canAssign_def)
    moreover from k have "pr_confidence (jobResult w job bs) = Some (ir_sideConfidence ?rec)"
      using new(2) by (simp add: jobResult_def newImageRecord_def)
    ultimately show ?thesis
      using m by blast
  qed
  have second: "pr_status (jobResult w job bs) = Rejected \<and>
      pr_error (jobResult w job bs) =
        Some (''Not assigned: side='' @ sideName (ir_detectedSide r) @ '', confidence='' @
              toFixed2 (ir_sideConfidence r) @ '', isCollage='' @ boolName (ir_isCollage r))"
    if u: "UpdateImageStatus i ''completed'' \<in> set (jobEffects w job bs)"
      and c: "CreateImageRecord r \<in> set (jobEffects w job bs)"
      and g: "\<not> (ir_detectedSide r = Front \<and> 0.85 \<le> ir_sideConfidence r \<and> \<not> ir_isCollage r)"
  proof -
    from u new(1,3) have "UpdateImageStatus i ''completed'' \<in> set (snd ?p)"
      by (auto simp: jobEffects_def quiet_no_writes)
    from persist_update [OF this]
    have eq: "fst ?p = fst (assignOrReject w job (fst (resolveSource w job)) i sha256 sr ic)"
      by simp
    from c new(1,3) have "CreateImageRecord r \<in> set (snd ?p)"
      by (auto simp: jobEffects_def quiet_no_writes)
    then have r: "r = ?rec" by (rule persist_create)
    with g have "\<not> canAssign sr ic"
      using gate_of_record [of sr ic bytes ct sha256 md] by blast
    from assignOrReject_gate_closed [OF this, of w job "fst (resolveSource w job)" i sha256]
    show ?thesis
      using eq new(2) r by (simp add: jobResult_def newImageRecord_def)
  qed
  from first second show ?thesis by blast
qed

lemma toFixed2_095: "toFixed2 (19 / 20) = ''0.95''"
  by code_simp

text \<open>
  The first job of the concrete run completes with side \<open>front\<close>; the same job with a
  vision model that answers \<open>BACK\<close> is rejected.
\<close>

theorem assignment_gate_witness:
  "pr_status (jobResult firstWorld exampleJob Map.empty) = Completed \<and>
   pr_detectedSide (jobResult firstWorld exampleJob Map.empty) = Some Front \<and>
   pr_status (jobResult backWorld exampleJob Map.empty) = Rejected \<and>
   pr_error (jobResult backWorld exampleJob Map.empty) =
     Some ''Not assigned: side=back, confidence=0.95, isCollage=false''"
proof -
  have c: "pr_status (jobResult firstWorld exampleJob Map.empty) = Completed"
    by (simp add: run_defs example_defs backWorld_def)
  have u: "UpdateImageStatus ''img-1'' ''completed'' \<in> set (jobEffects backWorld exampleJob Map.empty)"
    by (simp add: run_defs example_defs backWorld_def)
  let ?r = "\<lparr>ir_sha256 = ''ab12'', ir_originalMime = ''image/jpeg'', ir_originalWidth = 734,
      ir_originalHeight = 1024, ir_originalBytes = 3, ir_status = ''processing'',
      ir_detectedSide = Back, ir_sideConfidence = 19 / 20, ir_isCollage = False,
      ir_detectedMethod = Vision\<rparr>"
  have r: "CreateImageRecord ?r \<in> set (jobEffects backWorld exampleJob Map.empty)"
    by (simp add: run_defs example_defs backWorld_def)
  from assignment_gate [of firstWorld exampleJob Map.empty] c
  have "pr_detectedSide (jobResult firstWorld exampleJob Map.empty) = Some Front"
    by blast
  moreover from assignment_gate [of backWorld exampleJob Map.empty "''img-1''" ?r] u r
  have "pr_status (jobResult backWorld exampleJob Map.empty) = Rejected \<and>
        pr_error (jobResult backWorld exampleJob Map.empty) =
          Some ''Not assigned: side=back, confidence=0.95, isCollage=false''"
    by (simp add: toFixed2_095 boolName_def)
  ultimately show ?thesis using c by blast
qed

subsection \<open>The status of the image row\<close>

lemma endsInFailureEvent_catch: "endsInFailureEvent (pipelineCatch job e)"
  by (simp add: endsInFailureEvent_def event_def)

lemma endsInFailureEvent_after: "endsInFailureEvent x \<Longrightarrow> endsInFailureEvent (after tr x)"
  by (simp add: endsInFailureEvent_def)

lemma endsInFailureEvent_assignOrReject:
  "endsInFailureEvent (assignOrReject w job source imageId sha256 sr ic)"
  by (auto simp: assignOrReject_def Let_def endsInFailureEvent_def event_def split: option.splits)

lemma endsInFailureEvent_persist:
  "endsInFailureEvent (persist w job source bytes ct sha256 md sr ic)"
  unfolding persist_def
  by (auto intro!: endsInFailureEvent_after endsInFailureEvent_catch endsInFailureEvent_assignOrReject
      split: sum.splits prod.splits option.splits)

lemma endsInFailureEvent_processNew:
  "endsInFailureEvent (processNew w job source trustTier bytes ct sha256)"
  unfolding processNew_def
  by (auto intro!: endsInFailureEvent_after endsInFailureEvent_persist
      simp: endsInFailureEvent_def [of "(r, [e])" for r e] event_def
      split: sum.splits prod.splits)

lemma endsInFailureEvent_deduplicate:
  "endsInFailureEvent (deduplicate w job source existingId sha256)"
  unfolding deduplicate_def
  by (auto intro!: endsInFailureEvent_after endsInFailureEvent_catch
      simp: endsInFailureEvent_def [of "(r, [])" for r]
      split: option.splits)

lemma endsInFailureEvent_fetchAndDedup:
  "endsInFailureEvent (fetchAndDedup w job source trustTier sourceName)"
  unfolding fetchAndDedup_def Let_def
  by (auto intro!: endsInFailureEvent_after endsInFailureEvent_deduplicate endsInFailureEvent_processNew
      simp: endsInFailureEvent_def [of "(r, [e])" for r e] event_def
      split: option.splits bool.splits)

lemma processImage_endsInFailureEvent:
  "endsInFailureEvent (jobResult w job bs, jobEffects w job bs)"
proof -
  obtain source lookups where r: "resolveSource w job = (source, lookups)"
    by (cases "resolveSource w job") auto
  let ?f = "fetchAndDedup w job source (resolveTrustTier source job) (resolveSourceName source job)"
  have f: "endsInFailureEvent ?f" by (rule endsInFailureEvent_fetchAndDedup)
  show ?thesis
  proof (cases "pr_status (jobResult w job bs) = Failed")
    case False
    then show ?thesis by (simp add: endsInFailureEvent_def)
  next
    case True
    with r have "jobResult w job bs = fst ?f"
      and "jobEffects w job bs =
        LogIngestEvent ((event job EvFetchStarted)\<lparr>ev_message := Some (job_sourceUrl job)\<rparr>) #
        lookups @ snd ?f"
      by (auto simp: jobResult_def jobEffects_def processImage_def Let_def case_prod_beta
          split: option.splits if_splits)
    with f True show ?thesis
      by (simp add: endsInFailureEvent_def)
  qed
qed

text \<open>
  Claim C9.  Every image row is inserted with status \<open>processing\<close>, and every status
  update of a job sets \<open>completed\<close>, never \<open>failed\<close>.  A job that fails without
  having reached the assignment (so also one in which the generation of the derivatives,
  an upload or the insert of a derivative row throws after the row was inserted) makes no
  status update at all, and the row stays \<open>processing\<close>.  Every job that returns
  \<open>failed\<close> ends with the event that reports the failure: the \<open>catch\<close> block logs it
  and returns, without a status update after it.
\<close>

theorem status_never_set_to_failed:
  "(UpdateImageStatus i st \<in> set (jobEffects w job bs) \<longrightarrow> st = ''completed'') \<and>
   (CreateImageRecord r \<in> set (jobEffects w job bs) \<longrightarrow> ir_status r = ''processing'') \<and>
   (pr_status (jobResult w job bs) = Failed \<and>
    (\<forall>a. AssignImageToCard a \<notin> set (jobEffects w job bs)) \<longrightarrow>
      UpdateImageStatus i st \<notin> set (jobEffects w job bs)) \<and>
   (pr_status (jobResult w job bs) = Failed \<longrightarrow>
      jobEffects w job bs \<noteq> [] \<and> failureEvent (last (jobEffects w job bs)))"
proof -
  have updates: "(UpdateImageStatus i st \<in> set (jobEffects w job bs) \<longrightarrow> st = ''completed'') \<and>
   (CreateImageRecord r \<in> set (jobEffects w job bs) \<longrightarrow> ir_status r = ''processing'') \<and>
   (pr_status (jobResult w job bs) = Failed \<and>
    (\<forall>a. AssignImageToCard a \<notin> set (jobEffects w job bs)) \<longrightarrow>
      UpdateImageStatus i st \<notin> set (jobEffects w job bs))"
  proof (cases rule: processImage_cases [of w job bs])
    case stopped
    from stopped(1) have "UpdateImageStatus i st \<notin> set (jobEffects w job bs)"
      and "CreateImageRecord r \<notin> set (jobEffects w job bs)"
      by (simp_all add: jobEffects_def quiet_no_writes)
    then show ?thesis by blast
  next
    case (dedup pre existingId sha256)
    from dedup(1,3) deduplicate_facts(1,2) [of w job "fst (resolveSource w job)" existingId sha256]
    have "UpdateImageStatus i st \<notin> set (jobEffects w job bs)"
      and "CreateImageRecord r \<notin> set (jobEffects w job bs)"
      by (auto simp: jobEffects_def quiet_no_writes)
    then show ?thesis by blast
  next
    case (new pre bytes ct sha256 md sr ic)
    let ?p = "persist w job (fst (resolveSource w job)) bytes ct sha256 md sr ic"
    have in_p: "e \<in> set (snd ?p)" if "e \<in> set (jobEffects w job bs)" "changesCatalog e" for e
      using that new(1,3) quiet_notin [of pre e] by (auto simp: jobEffects_def)
    have a: "st = ''completed''" if "UpdateImageStatus i st \<in> set (jobEffects w job bs)"
      using persist_update [OF in_p [OF that]] by simp
    have b: "ir_status r = ''processing''" if "CreateImageRecord r \<in> set (jobEffects w job bs)"
      using persist_create [OF in_p [OF that]] by (simp add: newImageRecord_def)
    have c: "UpdateImageStatus i st \<notin> set (jobEffects w job bs)"
      if f: "pr_status (jobResult w job bs) = Failed"
        and n: "\<forall>a. AssignImageToCard a \<notin> set (jobEffects w job bs)"
    proof
      assume u: "UpdateImageStatus i st \<in> set (jobEffects w job bs)"
      from f new(2) have "pr_status (fst ?p) = Failed"
        by (simp add: jobResult_def)
      moreover from n new(3) have "\<forall>a. AssignImageToCard a \<notin> set (snd ?p)"
        by (simp add: jobEffects_def)
      ultimately have "UpdateImageStatus i st \<notin> set (snd ?p)"
        by (rule persist_failed_before_assignment)
      with in_p [OF u] show False by simp
    qed
    from a b c show ?thesis by blast
  qed
  have ending: "pr_status (jobResult w job bs) = Failed \<longrightarrow>
      jobEffects w job bs \<noteq> [] \<and> failureEvent (last (jobEffects w job bs))"
    using processImage_endsInFailureEvent [of w job bs]
    by (simp add: endsInFailureEvent_def split: if_splits)
  from updates ending show ?thesis by blast
qed

text \<open>The first job of the concrete run with a blob store that refuses the upload.\<close>

theorem status_never_set_to_failed_witness:
  "pr_status (jobResult uploadFailWorld exampleJob Map.empty) = Failed \<and>
   pr_error (jobResult uploadFailWorld exampleJob Map.empty) = Some ''Upload failed: Bucket not found'' \<and>
   CreateImageRecord
     \<lparr>ir_sha256 = ''ab12'', ir_originalMime = ''image/jpeg'', ir_originalWidth = 734,
      ir_originalHeight = 1024, ir_originalBytes = 3, ir_status = ''processing'',
      ir_detectedSide = Front, ir_sideConfidence = 19 / 20, ir_isCollage = False,
      ir_detectedMethod = Vision\<rparr> \<in> set (jobEffects uploadFailWorld exampleJob Map.empty) \<and>
   UpdateImageStatus ''img-1'' ''failed'' \<notin> set (jobEffects uploadFailWorld exampleJob Map.empty) \<and>
   UpdateImageStatus ''img-1'' ''completed'' \<notin> set (jobEffects uploadFailWorld exampleJob Map.empty)"
proof -
  have f: "pr_status (jobResult uploadFailWorld exampleJob Map.empty) = Failed"
    and e: "pr_error (jobResult uploadFailWorld exampleJob Map.empty) = Some ''Upload failed: Bucket not found''"
    by (simp_all add: run_defs example_defs uploadFailWorld_def errorMessage_def)
  have n: "\<forall>a. AssignImageToCard a \<notin> set (jobEffects uploadFailWorld exampleJob Map.empty)"
    by (simp add: run_defs example_defs uploadFailWorld_def)
  have r: "CreateImageRecord
     \<lparr>ir_sha256 = ''ab12'', ir_originalMime = ''image/jpeg'', ir_originalWidth = 734,
      ir_originalHeight = 1024, ir_originalBytes = 3, ir_status = ''processing'',
      ir_detectedSide = Front, ir_sideConfidence = 19 / 20, ir_isCollage = False,
      ir_detectedMethod = Vision\<rparr> \<in> set (jobEffects uploadFailWorld exampleJob Map.empty)"
    by (simp add: run_defs example_defs uploadFailWorld_def)
  from status_never_set_to_failed [of "''img-1''" "''failed''" uploadFailWorld exampleJob Map.empty] f n
  have "UpdateImageStatus ''img-1'' ''failed'' \<notin> set (jobEffects uploadFailWorld exampleJob Map.empty)"
    by blast
  moreover
  from status_never_set_to_failed [of "''img-1''" "''completed''" uploadFailWorld exampleJob Map.empty] f n
  have "UpdateImageStatus ''img-1'' ''completed'' \<notin> set (jobEffects uploadFailWorld exampleJob Map.empty)"
    by blast
  ultimately show ?thesis using f e r by blast
qed

subsection \<open>Deduplication\<close>

text \<open>
  Claim C8, amended.  When the job is not rate limited, the fetch succeeds and
  \<open>findImageBySha256\<close> finds an image for the hash of the fetched bytes, the effects of
  \<open>processImage\<close> are exactly: the start event, the source look-ups, the fetch, the
  \<open>fetch_completed\<close> event, the probe, the \<open>deduplicated\<close> event and a call of
  \<open>assignImageToCard\<close> with role \<open>primary_front\<close> for the existing image (nothing is
  decoded, classified or generated, and how the existing image was classified is not
  looked at).  If that call succeeds the result is \<open>deduplicated\<close> with the id of the
  existing image and the hash; if it throws, the \<open>catch\<close> block logs \<open>fetch_failed\<close>
  and the result is \<open>failed\<close>.
\<close>

theorem deduplication_path:
  assumes notLimited: "pr_status (jobResult w job bs) \<noteq> RateLimited"
    and fetched: "fetchImage (w_net w) (job_sourceUrl job)
                    (Some (resolveSourceName (fst (resolveSource w job)) job)) = fr"
      "fr_ok fr" "fr_bytes fr = Some bytes"
    and hit: "w_findImageBySha256 w (w_computeSha256 w bytes) = Some existingId"
  shows "jobEffects w job bs =
           LogIngestEvent ((event job EvFetchStarted)\<lparr>ev_message := Some (job_sourceUrl job)\<rparr>) #
           snd (resolveSource w job) @
           [FetchImage (job_sourceUrl job) (resolveSourceName (fst (resolveSource w job)) job),
            LogIngestEvent ((event job EvFetchCompleted)
              \<lparr>ev_httpStatus := fr_httpStatus fr,
               ev_metadata := Some [(''bytes'', JNum (real (length bytes))),
                                    (''contentType'',
                                     JStr (case fr_contentType fr of None \<Rightarrow> [] | Some c \<Rightarrow> c))]\<rparr>),
            FindImageBySha256 (w_computeSha256 w bytes),
            LogIngestEvent ((event job EvDeduplicated)\<lparr>ev_imageId := Some existingId\<rparr>),
            AssignImageToCard
              \<lparr>as_cardId = job_cardId job, as_imageId = existingId, as_role = ''primary_front'',
               as_sourceId = map_option src_id (fst (resolveSource w job)),
               as_sourceUrl = job_sourceUrl job\<rparr>] @
           (case w_upsertAssignment w of
              None \<Rightarrow> []
            | Some msg \<Rightarrow>
                [LogIngestEvent ((event job EvFetchFailed)
                   \<lparr>ev_message := Some (''Failed to assign image to card: '' @ msg)\<rparr>)]) \<and>
         jobResult w job bs =
           (case w_upsertAssignment w of
              None \<Rightarrow> (result Deduplicated)
                        \<lparr>pr_imageId := Some existingId, pr_sha256 := Some (w_computeSha256 w bytes)\<rparr>
            | Some msg \<Rightarrow> (result Failed)
                            \<lparr>pr_error := Some (''Failed to assign image to card: '' @ msg)\<rparr>)"
proof -
  obtain source lookups where r: "resolveSource w job = (source, lookups)"
    by (cases "resolveSource w job") auto
  let ?f = "fetchAndDedup w job source (resolveTrustTier source job) (resolveSourceName source job)"
  from notLimited r have res: "jobResult w job bs = fst ?f"
    and eff: "jobEffects w job bs =
        LogIngestEvent ((event job EvFetchStarted)\<lparr>ev_message := Some (job_sourceUrl job)\<rparr>) #
        lookups @ snd ?f"
    by (auto simp: jobResult_def jobEffects_def processImage_def Let_def case_prod_beta
        split: option.splits if_splits)
  from fetched r have fr: "fetchImage (w_net w) (job_sourceUrl job) (Some (resolveSourceName source job)) = fr"
    by simp
  from fr fetched(2,3) hit have f1: "fst ?f =
      (case w_upsertAssignment w of
              None \<Rightarrow> (result Deduplicated)
                        \<lparr>pr_imageId := Some existingId, pr_sha256 := Some (w_computeSha256 w bytes)\<rparr>
            | Some msg \<Rightarrow> (result Failed)
                            \<lparr>pr_error := Some (''Failed to assign image to card: '' @ msg)\<rparr>)"
    by (simp add: fetchAndDedup_def deduplicate_def Let_def errorMessage_def split: option.splits)
  from fr fetched(2,3) hit have f2: "snd ?f =
           [FetchImage (job_sourceUrl job) (resolveSourceName source job),
            LogIngestEvent ((event job EvFetchCompleted)
              \<lparr>ev_httpStatus := fr_httpStatus fr,
               ev_metadata := Some [(''bytes'', JNum (real (length bytes))),
                                    (''contentType'',
                                     JStr (case fr_contentType fr of None \<Rightarrow> [] | Some c \<Rightarrow> c))]\<rparr>),
            FindImageBySha256 (w_computeSha256 w bytes),
            LogIngestEvent ((event job EvDeduplicated)\<lparr>ev_imageId := Some existingId\<rparr>),
            AssignImageToCard
              \<lparr>as_cardId = job_cardId job, as_imageId = existingId, as_role = ''primary_front'',
               as_sourceId = map_option src_id source,
               as_sourceUrl = job_sourceUrl job\<rparr>] @
           (case w_upsertAssignment w of
              None \<Rightarrow> []
            | Some msg \<Rightarrow>
                [LogIngestEvent ((event job EvFetchFailed)
                   \<lparr>ev_message := Some (''Failed to assign image to card: '' @ msg)\<rparr>)])"
    by (simp add: fetchAndDedup_def deduplicate_def Let_def errorMessage_def split: option.splits)
  from res eff f1 f2 r show ?thesis
    by simp
qed

text \<open>The second job of the concrete run.\<close>

theorem deduplication_path_witness:
  "jobResult secondWorld exampleJob Map.empty =
     \<lparr>pr_status = Deduplicated, pr_imageId = Some ''img-1'', pr_error = None,
      pr_sha256 = Some ''ab12'', pr_detectedSide = None, pr_confidence = None\<rparr> \<and>
   jobEffects secondWorld exampleJob Map.empty =
     [LogIngestEvent \<lparr>ev_cardId = ''c1'', ev_imageId = None, ev_eventType = EvFetchStarted,
        ev_message = Some ''http://x/a.jpg'', ev_httpStatus = None, ev_metadata = None\<rparr>,
      GetImageSource ''s1'',
      FetchImage ''http://x/a.jpg'' ''example'',
      LogIngestEvent \<lparr>ev_cardId = ''c1'', ev_imageId = None, ev_eventType = EvFetchCompleted,
        ev_message = None, ev_httpStatus = Some 200,
        ev_metadata = Some [(''bytes'', JNum 3), (''contentType'', JStr ''image/jpeg'')]\<rparr>,
      FindImageBySha256 ''ab12'',
      LogIngestEvent \<lparr>ev_cardId = ''c1'', ev_imageId = Some ''img-1'', ev_eventType = EvDeduplicated,
        ev_message = None, ev_httpStatus = None, ev_metadata = None\<rparr>,
      AssignImageToCard \<lparr>as_cardId = ''c1'', as_imageId = ''img-1'', as_role = ''primary_front'',
        as_sourceId = Some ''s1'', as_sourceUrl = ''http://x/a.jpg''\<rparr>]"
proof -
  let ?fr = "\<lparr>fr_ok = True, fr_bytes = Some [0xFF, 0xD8, 0xFF], fr_contentType = Some ''image/jpeg'',
              fr_error = None, fr_httpStatus = Some 200\<rparr>"
  have a: "pr_status (jobResult secondWorld exampleJob Map.empty) \<noteq> RateLimited"
    by (simp add: run_defs example_defs)
  have b: "fetchImage (w_net secondWorld) (job_sourceUrl exampleJob)
             (Some (resolveSourceName (fst (resolveSource secondWorld exampleJob)) exampleJob)) = ?fr"
    by (simp add: run_defs example_defs)
  have c: "w_findImageBySha256 secondWorld (w_computeSha256 secondWorld [0xFF, 0xD8, 0xFF]) = Some ''img-1''"
    by (simp add: example_defs)
  from deduplication_path [OF a b _ _ c] show ?thesis
    by (simp add: example_defs resolveSource_def resolveSourceName_def event_def result_def)
qed

text \<open>
  Claim C8 as stated fails when the upsert of the assignment fails: the catalog knows the
  hash, yet the job returns \<open>failed\<close>, not \<open>deduplicated\<close>.
\<close>

theorem deduplication_counterexample:
  "fr_ok (fetchImage (w_net failingWorld) ''http://x/a.jpg'' (Some ''example'')) \<and>
   w_findImageBySha256 failingWorld ''ab12'' = Some ''img-1'' \<and>
   pr_status (jobResult failingWorld exampleJob Map.empty) = Failed \<and>
   pr_status (jobResult failingWorld exampleJob Map.empty) \<noteq> Deduplicated \<and>
   pr_error (jobResult failingWorld exampleJob Map.empty) =
     Some ''Failed to assign image to card: violates foreign key constraint''"
  by (simp add: run_defs example_defs failingWorld_def errorMessage_def)

end
